theory Spec2Isabelle
  imports Main "HOL-Library.Sublist"
begin

section \<open>JavaScript values used by the converter\<close>

text \<open>
  Strings are lists of code units and numbers are integers (token counts, block indices,
  the millisecond clock). An optional field is an \<open>option\<close>, \<open>None\<close> being the absent
  field; a \<open>null\<close>, where the type allows one, is \<open>None\<close> as well, since the code only
  tests such a field for truthiness or against a literal, where both behave alike.
\<close>

text \<open>Truthiness of an optional string: absent, null and the empty string are falsy.\<close>

definition truthy :: "string option \<Rightarrow> bool" where
  "truthy s = (case s of None \<Rightarrow> False | Some v \<Rightarrow> v \<noteq> [])"

text \<open>\<open>s || d\<close> on an optional string.\<close>

definition or_else :: "string option \<Rightarrow> string \<Rightarrow> string" where
  "or_else s d = (case s of None \<Rightarrow> d | Some v \<Rightarrow> if v = [] then d else v)"

text \<open>\<open>n || 0\<close> on an optional number.\<close>

definition or_zero :: "int option \<Rightarrow> int" where
  "or_zero n = (case n of None \<Rightarrow> 0 | Some v \<Rightarrow> v)"

text \<open>\<open>s.replace(p, r)\<close> with a string pattern: the first occurrence only.\<close>

fun replace_first :: "string \<Rightarrow> string \<Rightarrow> string \<Rightarrow> string" where
  "replace_first p r [] = (if p = [] then r else [])"
| "replace_first p r (c # cs) =
     (if prefix p (c # cs) then r @ drop (length p) (c # cs)
      else c # replace_first p r cs)"

text \<open>Decimal rendering of a non-negative integer, as \<open>toString\<close> and \<open>+\<close> on a string do.\<close>

definition digit_char :: "nat \<Rightarrow> char" where
  "digit_char n = char_of (48 + n)"

function string_of_nat :: "nat \<Rightarrow> string" where
  "string_of_nat n =
     (if n < 10 then [digit_char n]
      else string_of_nat (n div 10) @ [digit_char (n mod 10)])"
  by pat_completeness auto
termination
  by (relation "measure id") auto

declare string_of_nat.simps [simp del]

definition string_of_int :: "int \<Rightarrow> string" where
  "string_of_int i = (if i < 0 then CHR ''-'' # string_of_nat (nat (- i)) else string_of_nat (nat i))"

subsection \<open>JSON values and their serialization\<close>

text \<open>
  The \<open>input\<close> of a tool block has type \<open>unknown\<close>: any value \<open>JSON.parse\<close> can produce.
  Numbers are restricted to integers.
\<close>

datatype json =
    JNull
  | JBool bool
  | JNum int
  | JStr string
  | JArr "json list"
  | JObj "(string \<times> json) list"

fun js_truthy :: "json \<Rightarrow> bool" where
  "js_truthy JNull = False"
| "js_truthy (JBool b) = b"
| "js_truthy (JNum n) = (n \<noteq> 0)"
| "js_truthy (JStr s) = (s \<noteq> [])"
| "js_truthy (JArr _) = True"
| "js_truthy (JObj _) = True"

text \<open>\<open>block.input || {}\<close>\<close>

definition input_or_empty :: "json option \<Rightarrow> json" where
  "input_or_empty i = (case i of None \<Rightarrow> JObj [] | Some v \<Rightarrow> if js_truthy v then v else JObj [])"

definition hex_digit :: "nat \<Rightarrow> char" where
  "hex_digit n = (if n < 10 then char_of (48 + n) else char_of (87 + n))"

text \<open>The escape of one code unit inside a JSON string literal.\<close>

definition quote_char :: "char \<Rightarrow> string" where
  "quote_char c =
     (if c = CHR 0x22 then [CHR 0x5C, CHR 0x22]
      else if c = CHR 0x5C then [CHR 0x5C, CHR 0x5C]
      else if c = CHR 0x08 then [CHR 0x5C, CHR ''b'']
      else if c = CHR 0x09 then [CHR 0x5C, CHR ''t'']
      else if c = CHR 0x0A then [CHR 0x5C, CHR ''n'']
      else if c = CHR 0x0C then [CHR 0x5C, CHR ''f'']
      else if c = CHR 0x0D then [CHR 0x5C, CHR ''r'']
      else if of_char c < (32::nat)
        then [CHR 0x5C, CHR ''u'', CHR ''0'', CHR ''0'',
              hex_digit (of_char c div 16), hex_digit (of_char c mod 16)]
      else [c])"

definition quote_string :: "string \<Rightarrow> string" where
  "quote_string s = [CHR 0x22] @ concat (map quote_char s) @ [CHR 0x22]"

fun join_with :: "string \<Rightarrow> string list \<Rightarrow> string" where
  "join_with sep [] = []"
| "join_with sep [x] = x"
| "join_with sep (x # y # ys) = x @ sep @ join_with sep (y # ys)"

text \<open>\<open>JSON.stringify\<close> without indentation.\<close>

fun JSON_stringify :: "json \<Rightarrow> string" where
  "JSON_stringify JNull = ''null''"
| "JSON_stringify (JBool b) = (if b then ''true'' else ''false'')"
| "JSON_stringify (JNum n) = string_of_int n"
| "JSON_stringify (JStr s) = quote_string s"
| "JSON_stringify (JArr xs) = ''['' @ join_with '','' (map JSON_stringify xs) @ '']''"
| "JSON_stringify (JObj kvs) =
     ''{'' @ join_with '','' (map (\<lambda>kv. quote_string (fst kv) @ '':'' @ JSON_stringify (snd kv)) kvs) @ ''}''"

section \<open>Upstream event model\<close>

record Usage =
  u_input_tokens :: "int option"
  u_output_tokens :: "int option"
  u_cache_creation_input_tokens :: "int option"
  u_cache_read_input_tokens :: "int option"

record AnthropicMessage =
  msg_id :: "string option"
  msg_model :: "string option"
  msg_usage :: "Usage option"
  msg_stop_reason :: "string option"

record AnthropicContentBlock =
  cb_type :: string
  cb_id :: "string option"
  cb_name :: "string option"
  cb_text :: "string option"
  cb_input :: "json option"

record AnthropicDelta =
  d_text :: "string option"
  d_partial_json :: "string option"
  d_stop_reason :: "string option"

record AnthropicStreamEvent =
  ev_type :: string
  ev_message :: "AnthropicMessage option"
  ev_content_block :: "AnthropicContentBlock option"
  ev_delta :: "AnthropicDelta option"
  ev_index :: "int option"
  ev_model :: "string option"
  ev_stop_reason :: "string option"
  ev_usage :: "Usage option"

record AnthropicResponse =
  ar_id :: "string option"
  ar_model :: "string option"
  ar_stop_reason :: "string option"
  ar_content :: "AnthropicContentBlock list option"
  ar_usage :: "Usage option"

section \<open>Client chunk model\<close>

record FunctionDelta =
  fn_name :: "string option"
  fn_arguments :: "string option"

record ToolCallDelta =
  tcd_index :: int
  tcd_id :: "string option"
  tcd_type :: "string option"
  tcd_function :: "FunctionDelta option"

record ChunkDelta =
  delta_role :: "string option"
  delta_content :: "string option"
  delta_tool_calls :: "ToolCallDelta list option"

record StreamChoice =
  sc_index :: int
  sc_delta :: ChunkDelta
  sc_finish_reason :: "string option"

record OpenAIUsage =
  prompt_tokens :: int
  completion_tokens :: int
  total_tokens :: int

record OpenAIStreamChunk =
  chunk_id :: string
  chunk_object :: string
  chunk_created :: nat
  chunk_model :: "string option"
  chunk_choices :: "StreamChoice list"
  chunk_usage :: "OpenAIUsage option"

record FunctionCall =
  f_name :: string
  f_arguments :: string

record ToolCall =
  call_id :: string
  call_type :: string
  call_function :: FunctionCall

record ResponseMessage =
  m_role :: string
  m_content :: "string option"
  m_tool_calls :: "ToolCall list"

record ResponseChoice =
  ch_index :: int
  ch_message :: ResponseMessage
  ch_finish_reason :: "string option"

record OpenAIResponse =
  resp_id :: string
  resp_object :: string
  resp_created :: nat
  resp_model :: string
  resp_choices :: "ResponseChoice list"
  resp_usage :: OpenAIUsage

section \<open>Converter state\<close>

record ToolCallTracker =
  tc_id :: string
  tc_name :: string
  tc_arguments :: string

record MetricsData =
  model :: string
  stop_reason :: "string option"
  input_tokens :: int
  cache_creation_input_tokens :: int
  cache_read_input_tokens :: int
  output_tokens :: int
  messageId :: "string option"
  openAIId :: "string option"

record ConverterState =
  toolCallsTracker :: "int \<rightharpoonup> ToolCallTracker"
  metricsData :: MetricsData

datatype ProcessResult = Chunk OpenAIStreamChunk | Done

datatype error = TypeError

definition createConverterState :: ConverterState where
  "createConverterState =
     \<lparr> toolCallsTracker = Map.empty,
       metricsData = \<lparr> model = [], stop_reason = None, input_tokens = 0,
         cache_creation_input_tokens = 0, cache_read_input_tokens = 0,
         output_tokens = 0, messageId = None, openAIId = None \<rparr> \<rparr>"

section \<open>Metrics aggregator\<close>

text \<open>The usage counters of one usage object, each read as \<open>field || 0\<close>.\<close>

definition addUsage :: "MetricsData \<Rightarrow> Usage \<Rightarrow> MetricsData" where
  "addUsage md u =
     md\<lparr>
       input_tokens := input_tokens md + or_zero (u_input_tokens u),
       output_tokens := output_tokens md + or_zero (u_output_tokens u),
       cache_creation_input_tokens :=
         cache_creation_input_tokens md + or_zero (u_cache_creation_input_tokens u),
       cache_read_input_tokens :=
         cache_read_input_tokens md + or_zero (u_cache_read_input_tokens u) \<rparr>"

text \<open>
  \<open>updateMetrics\<close> is seven conditional statements in a row, each reading the frame and
  updating the record the one before it left. They are given one by one, in source order.
\<close>

text \<open>\<open>if (data.type === 'message_start' && data.message)\<close>\<close>

definition onMessageStart :: "MetricsData \<Rightarrow> AnthropicStreamEvent \<Rightarrow> MetricsData" where
  "onMessageStart md data =
     (case ev_message data of
        None \<Rightarrow> md
      | Some msg \<Rightarrow>
          if ev_type data = ''message_start''
          then (if truthy (msg_model msg)
                then md\<lparr> messageId := msg_id msg, model := the (msg_model msg) \<rparr>
                else md\<lparr> messageId := msg_id msg \<rparr>)
          else md)"

text \<open>\<open>if (data.model)\<close>\<close>

definition onModel :: "MetricsData \<Rightarrow> AnthropicStreamEvent \<Rightarrow> MetricsData" where
  "onModel md data = (if truthy (ev_model data) then md\<lparr> model := the (ev_model data) \<rparr> else md)"

text \<open>\<open>if (data.stop_reason)\<close>\<close>

definition onStopReason :: "MetricsData \<Rightarrow> AnthropicStreamEvent \<Rightarrow> MetricsData" where
  "onStopReason md data =
     (if truthy (ev_stop_reason data) then md\<lparr> stop_reason := ev_stop_reason data \<rparr> else md)"

text \<open>\<open>if (data.type === 'message_delta' && data?.delta?.stop_reason)\<close>\<close>

definition onDeltaStopReason :: "MetricsData \<Rightarrow> AnthropicStreamEvent \<Rightarrow> MetricsData" where
  "onDeltaStopReason md data =
     (case ev_delta data of
        None \<Rightarrow> md
      | Some d \<Rightarrow>
          if ev_type data = ''message_delta'' \<and> truthy (d_stop_reason d)
          then md\<lparr> stop_reason := d_stop_reason d \<rparr> else md)"

text \<open>\<open>if (data.usage)\<close>\<close>

definition onUsage :: "MetricsData \<Rightarrow> AnthropicStreamEvent \<Rightarrow> MetricsData" where
  "onUsage md data = (case ev_usage data of None \<Rightarrow> md | Some u \<Rightarrow> addUsage md u)"

text \<open>\<open>if (data?.message?.usage)\<close>\<close>

definition onMessageUsage :: "MetricsData \<Rightarrow> AnthropicStreamEvent \<Rightarrow> MetricsData" where
  "onMessageUsage md data =
     (case ev_message data of
        None \<Rightarrow> md
      | Some msg \<Rightarrow>
          (case msg_usage msg of
             None \<Rightarrow> md
           | Some u \<Rightarrow>
               addUsage (if truthy (msg_model msg) then md\<lparr> model := the (msg_model msg) \<rparr> else md) u))"

text \<open>\<open>if (data?.message?.stop_reason)\<close>\<close>

definition onMessageStopReason :: "MetricsData \<Rightarrow> AnthropicStreamEvent \<Rightarrow> MetricsData" where
  "onMessageStopReason md data =
     (case ev_message data of
        None \<Rightarrow> md
      | Some msg \<Rightarrow>
          if truthy (msg_stop_reason msg) then md\<lparr> stop_reason := msg_stop_reason msg \<rparr> else md)"

definition updateMetrics :: "MetricsData \<Rightarrow> AnthropicStreamEvent \<Rightarrow> MetricsData" where
  "updateMetrics md data =
    (let m1 = onMessageStart md data;
         m2 = onModel m1 data;
         m3 = onStopReason m2 data;
         m4 = onDeltaStopReason m3 data;
         m5 = onUsage m4 data;
         m6 = onMessageUsage m5 data;
         m7 = onMessageStopReason m6 data
     in m7)"

text \<open>\<open>state.metricsData.openAIId || 'chatcmpl-' + Date.now()\<close>; \<open>now\<close> is the clock reading.\<close>

definition chunkId :: "nat \<Rightarrow> ConverterState \<Rightarrow> string" where
  "chunkId now state = or_else (openAIId (metricsData state)) (''chatcmpl-'' @ string_of_nat now)"

definition chunkModel :: "ConverterState \<Rightarrow> string option" where
  "chunkModel state = Some (or_else (Some (model (metricsData state))) ''claude-unknown'')"

definition emptyDelta :: ChunkDelta where
  "emptyDelta = \<lparr> delta_role = None, delta_content = None, delta_tool_calls = None \<rparr>"

definition createUsageChunk :: "nat \<Rightarrow> ConverterState \<Rightarrow> OpenAIStreamChunk option" where
  "createUsageChunk now state =
     (if input_tokens (metricsData state) = 0 \<and> output_tokens (metricsData state) = 0
      then None
      else Some \<lparr>
        chunk_id = chunkId now state,
        chunk_object = ''chat.completion.chunk'',
        chunk_created = now div 1000,
        chunk_model = chunkModel state,
        chunk_choices = [\<lparr> sc_index = 0, sc_delta = emptyDelta, sc_finish_reason = None \<rparr>],
        chunk_usage = Some \<lparr>
          prompt_tokens = input_tokens (metricsData state),
          completion_tokens = output_tokens (metricsData state),
          total_tokens = input_tokens (metricsData state) + output_tokens (metricsData state) \<rparr> \<rparr>)"

section \<open>Delta tracker\<close>

text \<open>
  The fragment-or-snapshot decision of \<open>transformToOpenAI\<close>: from the tracked tool call and the
  incoming \<open>partial_json\<close>, the part to emit (\<open>newPart\<close>) and the updated tracker.
\<close>

definition resolveDelta :: "ToolCallTracker \<Rightarrow> string \<Rightarrow> string \<times> ToolCallTracker" where
  "resolveDelta toolCall partial_json =
     (if tc_arguments toolCall \<noteq> [] \<and> prefix (tc_arguments toolCall) partial_json
      then (drop (length (tc_arguments toolCall)) partial_json,
            toolCall\<lparr> tc_arguments := partial_json \<rparr>)
      else (partial_json,
            toolCall\<lparr> tc_arguments := tc_arguments toolCall @ partial_json \<rparr>))"

section \<open>Stream translator\<close>

definition stopReasonStream :: "string \<Rightarrow> string" where
  "stopReasonStream r =
     (if r = ''end_turn'' then ''stop'' else if r = ''tool_use'' then ''tool_calls'' else r)"

definition mkChunk :: "nat \<Rightarrow> ConverterState \<Rightarrow> ChunkDelta \<Rightarrow> string option \<Rightarrow> OpenAIStreamChunk" where
  "mkChunk now state d fr =
     \<lparr> chunk_id = chunkId now state,
       chunk_object = ''chat.completion.chunk'',
       chunk_created = now div 1000,
       chunk_model = chunkModel state,
       chunk_choices = [\<lparr> sc_index = 0, sc_delta = d, sc_finish_reason = fr \<rparr>],
       chunk_usage = None \<rparr>"

text \<open>\<open>data.index ?? 0\<close>\<close>

definition indexOf :: "AnthropicStreamEvent \<Rightarrow> int" where
  "indexOf data = (case ev_index data of None \<Rightarrow> 0 | Some i \<Rightarrow> i)"

definition isToolStart :: "AnthropicStreamEvent \<Rightarrow> bool" where
  "isToolStart data \<longleftrightarrow>
     ev_type data = ''content_block_start'' \<and>
     (case ev_content_block data of Some cb \<Rightarrow> cb_type cb = ''tool_use'' | None \<Rightarrow> False)"

definition partialJson :: "AnthropicStreamEvent \<Rightarrow> string option" where
  "partialJson data = (case ev_delta data of Some d \<Rightarrow> d_partial_json d | None \<Rightarrow> None)"

definition deltaText :: "AnthropicStreamEvent \<Rightarrow> string option" where
  "deltaText data = (case ev_delta data of Some d \<Rightarrow> d_text d | None \<Rightarrow> None)"

definition deltaStopReason :: "AnthropicStreamEvent \<Rightarrow> string option" where
  "deltaStopReason data = (case ev_delta data of Some d \<Rightarrow> d_stop_reason d | None \<Rightarrow> None)"

text \<open>
  \<open>transformToOpenAI\<close>: the else-if chain of the source. Reading \<open>data.message.id.replace\<close>
  on a message without id throws; the state is returned updated, with the chunk or none.
\<close>

definition transformToOpenAI ::
  "nat \<Rightarrow> ConverterState \<Rightarrow> AnthropicStreamEvent \<Rightarrow> error + (ConverterState \<times> OpenAIStreamChunk option)" where
  "transformToOpenAI now state data =
    (if ev_type data = ''message_start'' \<and> ev_message data \<noteq> None then
       (case msg_id (the (ev_message data)) of
          None \<Rightarrow> Inl TypeError
        | Some mid \<Rightarrow>
            (let oid = ''chatcmpl-'' @ replace_first ''msg_'' [] mid;
                 state' = state\<lparr> metricsData := (metricsData state)\<lparr> openAIId := Some oid \<rparr> \<rparr>
             in Inr (state',
                  Some \<lparr> chunk_id = oid,
                         chunk_object = ''chat.completion.chunk'',
                         chunk_created = now div 1000,
                         chunk_model = msg_model (the (ev_message data)),
                         chunk_choices =
                           [\<lparr> sc_index = 0,
                              sc_delta = \<lparr> delta_role = Some ''assistant'', delta_content = Some [],
                                           delta_tool_calls = None \<rparr>,
                              sc_finish_reason = None \<rparr>],
                         chunk_usage = None \<rparr>)))
     else if isToolStart data then
       (let cb = the (ev_content_block data);
            state' = state\<lparr> toolCallsTracker := (toolCallsTracker state)(indexOf data \<mapsto>
                       \<lparr> tc_id = (case cb_id cb of None \<Rightarrow> [] | Some v \<Rightarrow> v),
                         tc_name = (case cb_name cb of None \<Rightarrow> [] | Some v \<Rightarrow> v),
                         tc_arguments = [] \<rparr>) \<rparr>
        in Inr (state',
             Some (mkChunk now state'
               \<lparr> delta_role = None, delta_content = None,
                 delta_tool_calls = Some
                   [\<lparr> tcd_index = indexOf data, tcd_id = cb_id cb, tcd_type = Some ''function'',
                      tcd_function = Some \<lparr> fn_name = cb_name cb, fn_arguments = Some [] \<rparr> \<rparr>] \<rparr>
               None)))
     else if ev_type data = ''content_block_delta'' \<and> truthy (partialJson data) then
       (case toolCallsTracker state (indexOf data) of
          None \<Rightarrow> Inr (state, None)
        | Some toolCall \<Rightarrow>
            (let (newPart, toolCall') = resolveDelta toolCall (the (partialJson data));
                 state' = state\<lparr> toolCallsTracker := (toolCallsTracker state)(indexOf data \<mapsto> toolCall') \<rparr>
             in Inr (state',
                  Some (mkChunk now state'
                    \<lparr> delta_role = None, delta_content = None,
                      delta_tool_calls = Some
                        [\<lparr> tcd_index = indexOf data, tcd_id = None, tcd_type = None,
                           tcd_function = Some \<lparr> fn_name = None, fn_arguments = Some newPart \<rparr> \<rparr>] \<rparr>
                    None))))
     else if ev_type data = ''content_block_delta'' \<and> truthy (deltaText data) then
       Inr (state,
         Some (mkChunk now state
           \<lparr> delta_role = None, delta_content = deltaText data, delta_tool_calls = None \<rparr> None))
     else if ev_type data = ''message_delta'' \<and> truthy (deltaStopReason data) then
       Inr (state,
         Some (mkChunk now state emptyDelta (Some (stopReasonStream (the (deltaStopReason data))))))
     else Inr (state, None))"

text \<open>The kinds \<open>processChunk\<close> skips before it touches the state.\<close>

definition ignoredKind :: "AnthropicStreamEvent \<Rightarrow> bool" where
  "ignoredKind data \<longleftrightarrow>
     ev_type data = ''ping'' \<or> ev_type data = ''content_block_stop'' \<or>
     (ev_type data = ''content_block_start'' \<and>
      (case ev_content_block data of Some cb \<Rightarrow> cb_type cb = ''text'' | None \<Rightarrow> False))"

text \<open>
  The body of the \<open>try\<close> block of \<open>processChunk\<close> for one decoded frame: the results it
  pushes and the state it leaves. An exception of \<open>transformToOpenAI\<close> is caught by the
  \<open>catch\<close> clause: nothing is pushed, the metrics update stays.
\<close>

definition processData ::
  "nat \<Rightarrow> ConverterState \<Rightarrow> AnthropicStreamEvent \<Rightarrow> ConverterState \<times> ProcessResult list" where
  "processData now state data =
    (if ev_type data = ''ping'' \<or> ev_type data = ''content_block_stop'' then (state, [])
     else if ev_type data = ''content_block_start'' \<and>
             (case ev_content_block data of Some cb \<Rightarrow> cb_type cb = ''text'' | None \<Rightarrow> False)
       then (state, [])
     else
       (let state1 = state\<lparr> metricsData := updateMetrics (metricsData state) data \<rparr>
        in case transformToOpenAI now state1 data of
             Inl e \<Rightarrow> (state1, [])
           | Inr (state2, openAIChunk) \<Rightarrow>
               (let results = (case openAIChunk of Some c \<Rightarrow> [Chunk c] | None \<Rightarrow> [])
                in if ev_type data = ''message_stop''
                   then (state2,
                         results
                         @ (case createUsageChunk now state2 of Some u \<Rightarrow> [Chunk u] | None \<Rightarrow> [])
                         @ [Done])
                   else (state2, results))))"

text \<open>
  \<open>processChunk\<close> over the lines of a chunk, each given by its decoding: \<open>None\<close> is a line
  that is blank, an \<open>event:\<close> line, not a \<open>data: \<close> line holding a brace, or one that
  \<open>JSON.parse\<close> rejects; all of these are dropped. The state is threaded through the lines
  and, by the caller, through the successive chunks of one exchange.
\<close>

fun processChunk ::
  "nat \<Rightarrow> ConverterState \<Rightarrow> AnthropicStreamEvent option list \<Rightarrow> ConverterState \<times> ProcessResult list" where
  "processChunk now state [] = (state, [])"
| "processChunk now state (None # lines) = processChunk now state lines"
| "processChunk now state (Some data # lines) =
     (let (state1, results1) = processData now state data;
          (state2, results2) = processChunk now state1 lines
      in (state2, results1 @ results2))"

section \<open>Snapshot translator\<close>

definition stopReasonSnapshot :: "string option \<Rightarrow> string option" where
  "stopReasonSnapshot r =
     (if r = Some ''end_turn'' then Some ''stop''
      else if r = Some ''tool_use'' then Some ''tool_calls''
      else if truthy r then r else None)"

text \<open>
  The loop over the content blocks: \<open>textContent\<close> and the pushed tool calls.
  \<open>textContent += block.text\<close> appends the string \<open>undefined\<close> for a text block without
  text. \<open>JSON.stringify\<close> is a parameter of the translation; \<open>JSON_stringify\<close> above
  stands for it in the examples.
\<close>

fun contentBlocks ::
  "(json \<Rightarrow> string) \<Rightarrow> AnthropicContentBlock list \<Rightarrow> string \<times> ToolCall list \<Rightarrow> string \<times> ToolCall list" where
  "contentBlocks stringify [] acc = acc"
| "contentBlocks stringify (block # blocks) (textContent, tool_calls) =
     (if cb_type block = ''text''
      then contentBlocks stringify blocks
             (textContent @ (case cb_text block of None \<Rightarrow> ''undefined'' | Some t \<Rightarrow> t), tool_calls)
      else if cb_type block = ''tool_use'' \<and> truthy (cb_id block) \<and> truthy (cb_name block)
      then contentBlocks stringify blocks
             (textContent,
              tool_calls @
                [\<lparr> call_id = the (cb_id block), call_type = ''function'',
                   call_function = \<lparr> f_name = the (cb_name block),
                                     f_arguments = stringify (input_or_empty (cb_input block)) \<rparr> \<rparr>])
      else contentBlocks stringify blocks (textContent, tool_calls))"

definition convertNonStreamingResponse ::
  "(json \<Rightarrow> string) \<Rightarrow> nat \<Rightarrow> AnthropicResponse \<Rightarrow> OpenAIResponse" where
  "convertNonStreamingResponse stringify now anthropicResponse =
    (let (textContent, tool_calls) =
           contentBlocks stringify
             (case ar_content anthropicResponse of None \<Rightarrow> [] | Some bs \<Rightarrow> bs) ([], [])
     in \<lparr> resp_id = ''chatcmpl-'' @
                     replace_first ''msg_'' [] (or_else (ar_id anthropicResponse) (string_of_nat now)),
          resp_object = ''chat.completion'',
          resp_created = now div 1000,
          resp_model = or_else (ar_model anthropicResponse) ''claude-unknown'',
          resp_choices =
            [\<lparr> ch_index = 0,
               ch_message = \<lparr> m_role = ''assistant'',
                              m_content = (if textContent \<noteq> [] then Some textContent else None),
                              m_tool_calls = tool_calls \<rparr>,
               ch_finish_reason = stopReasonSnapshot (ar_stop_reason anthropicResponse) \<rparr>],
          resp_usage =
            (let u = ar_usage anthropicResponse;
                 i = (case u of None \<Rightarrow> 0 | Some v \<Rightarrow> or_zero (u_input_tokens v));
                 out = (case u of None \<Rightarrow> 0 | Some v \<Rightarrow> or_zero (u_output_tokens v))
             in \<lparr> prompt_tokens = i, completion_tokens = out, total_tokens = i + out \<rparr>) \<rparr>)"

section \<open>Observations used to state the properties\<close>

subsection \<open>Token counts reported by a frame\<close>

definition usageInput :: "Usage option \<Rightarrow> int" where
  "usageInput u = (case u of None \<Rightarrow> 0 | Some v \<Rightarrow> or_zero (u_input_tokens v))"

definition usageOutput :: "Usage option \<Rightarrow> int" where
  "usageOutput u = (case u of None \<Rightarrow> 0 | Some v \<Rightarrow> or_zero (u_output_tokens v))"

definition usageCacheCreation :: "Usage option \<Rightarrow> int" where
  "usageCacheCreation u =
     (case u of None \<Rightarrow> 0 | Some v \<Rightarrow> or_zero (u_cache_creation_input_tokens v))"

definition usageCacheRead :: "Usage option \<Rightarrow> int" where
  "usageCacheRead u = (case u of None \<Rightarrow> 0 | Some v \<Rightarrow> or_zero (u_cache_read_input_tokens v))"

definition messageUsage :: "AnthropicStreamEvent \<Rightarrow> Usage option" where
  "messageUsage data = (case ev_message data of None \<Rightarrow> None | Some msg \<Rightarrow> msg_usage msg)"

text \<open>The counts of the frame's own usage object plus those of its message's.\<close>

definition frameInputTokens :: "AnthropicStreamEvent \<Rightarrow> int" where
  "frameInputTokens data = usageInput (ev_usage data) + usageInput (messageUsage data)"

definition frameOutputTokens :: "AnthropicStreamEvent \<Rightarrow> int" where
  "frameOutputTokens data = usageOutput (ev_usage data) + usageOutput (messageUsage data)"

definition frameCacheCreationTokens :: "AnthropicStreamEvent \<Rightarrow> int" where
  "frameCacheCreationTokens data =
     usageCacheCreation (ev_usage data) + usageCacheCreation (messageUsage data)"

definition frameCacheReadTokens :: "AnthropicStreamEvent \<Rightarrow> int" where
  "frameCacheReadTokens data = usageCacheRead (ev_usage data) + usageCacheRead (messageUsage data)"

definition messageStopReason :: "AnthropicStreamEvent \<Rightarrow> string option" where
  "messageStopReason data =
     (case ev_message data of None \<Rightarrow> None | Some msg \<Rightarrow> msg_stop_reason msg)"

text \<open>
  The stop reason a frame leaves in the metrics, if any: of the three places read, the
  last one that holds a non-empty value; the delta's is read on \<open>message_delta\<close> only.
\<close>

definition frameStopReason :: "AnthropicStreamEvent \<Rightarrow> string option" where
  "frameStopReason data =
     (if truthy (messageStopReason data) then messageStopReason data
      else if ev_type data = ''message_delta'' \<and> truthy (deltaStopReason data)
        then deltaStopReason data
      else if truthy (ev_stop_reason data) then ev_stop_reason data
      else None)"

subsection \<open>What the client receives\<close>

text \<open>The argument text a chunk carries for tool-call index \<open>i\<close>.\<close>

definition callArgs :: "int \<Rightarrow> ToolCallDelta \<Rightarrow> string" where
  "callArgs i t =
     (if tcd_index t = i
      then (case tcd_function t of
              None \<Rightarrow> []
            | Some f \<Rightarrow> (case fn_arguments f of None \<Rightarrow> [] | Some a \<Rightarrow> a))
      else [])"

definition choiceArgs :: "int \<Rightarrow> StreamChoice \<Rightarrow> string" where
  "choiceArgs i ch =
     (case delta_tool_calls (sc_delta ch) of None \<Rightarrow> [] | Some ts \<Rightarrow> concat (map (callArgs i) ts))"

fun resultArgs :: "int \<Rightarrow> ProcessResult \<Rightarrow> string" where
  "resultArgs i (Chunk c) = concat (map (choiceArgs i) (chunk_choices c))"
| "resultArgs i Done = []"

text \<open>The client's concatenation, in emission order, of the argument text for index \<open>i\<close>.\<close>

definition emittedArgs :: "int \<Rightarrow> ProcessResult list \<Rightarrow> string" where
  "emittedArgs i rs = concat (map (resultArgs i) rs)"

text \<open>The arguments the accumulator of index \<open>i\<close> holds; empty where there is none.\<close>

definition trackedArgs :: "ConverterState \<Rightarrow> int \<Rightarrow> string" where
  "trackedArgs st i = (case toolCallsTracker st i of None \<Rightarrow> [] | Some tc \<Rightarrow> tc_arguments tc)"


text \<open>The usage object and the finish reasons a result carries.\<close>

definition usageOf :: "ProcessResult \<Rightarrow> OpenAIUsage option" where
  "usageOf r = (case r of Done \<Rightarrow> None | Chunk c \<Rightarrow> chunk_usage c)"

definition finishReasonsOf :: "ProcessResult \<Rightarrow> string option list" where
  "finishReasonsOf r = (case r of Done \<Rightarrow> [] | Chunk c \<Rightarrow> map sc_finish_reason (chunk_choices c))"

text \<open>A line that decodes to a \<open>message_stop\<close> frame.\<close>

definition isStopLine :: "AnthropicStreamEvent option \<Rightarrow> bool" where
  "isStopLine l = (case l of None \<Rightarrow> False | Some d \<Rightarrow> ev_type d = ''message_stop'')"

text \<open>The frames of a chunk that reach the metrics: decoded, and not of an ignored kind.\<close>

fun absorbedFrames :: "AnthropicStreamEvent option list \<Rightarrow> AnthropicStreamEvent list" where
  "absorbedFrames [] = []"
| "absorbedFrames (None # lines) = absorbedFrames lines"
| "absorbedFrames (Some d # lines) =
     (if ignoredKind d then absorbedFrames lines else d # absorbedFrames lines)"

subsection \<open>The snapshot translator's input and output\<close>

definition responseBlocks :: "AnthropicResponse \<Rightarrow> AnthropicContentBlock list" where
  "responseBlocks resp = (case ar_content resp of None \<Rightarrow> [] | Some bs \<Rightarrow> bs)"

text \<open>The two tests of the loop over the content blocks, and what each branch contributes.\<close>

definition isTextBlock :: "AnthropicContentBlock \<Rightarrow> bool" where
  "isTextBlock b \<longleftrightarrow> cb_type b = ''text''"

definition isToolBlock :: "AnthropicContentBlock \<Rightarrow> bool" where
  "isToolBlock b \<longleftrightarrow> cb_type b = ''tool_use'' \<and> truthy (cb_id b) \<and> truthy (cb_name b)"

definition appendedText :: "AnthropicContentBlock \<Rightarrow> string" where
  "appendedText b = (case cb_text b of None \<Rightarrow> ''undefined'' | Some t \<Rightarrow> t)"

definition toolCallOf :: "(json \<Rightarrow> string) \<Rightarrow> AnthropicContentBlock \<Rightarrow> ToolCall" where
  "toolCallOf stringify b =
     \<lparr> call_id = the (cb_id b), call_type = ''function'',
       call_function = \<lparr> f_name = the (cb_name b),
                         f_arguments = stringify (input_or_empty (cb_input b)) \<rparr> \<rparr>"

text \<open>Content, tool calls and finish reason of the response, one entry per choice.\<close>

definition responseContent :: "OpenAIResponse \<Rightarrow> string option list" where
  "responseContent r = map (\<lambda>ch. m_content (ch_message ch)) (resp_choices r)"

definition responseToolCalls :: "OpenAIResponse \<Rightarrow> ToolCall list list" where
  "responseToolCalls r = map (\<lambda>ch. m_tool_calls (ch_message ch)) (resp_choices r)"

definition responseFinishReason :: "OpenAIResponse \<Rightarrow> string option list" where
  "responseFinishReason r = map ch_finish_reason (resp_choices r)"

text \<open>
  The stop-reason table in the specification's words: \<open>end_turn\<close> to \<open>stop\<close>,
  \<open>tool_use\<close> to \<open>tool_calls\<close>, anything else verbatim, absent stays absent. It is
  written from the specification, to be compared with what the two translators compute.
\<close>

definition specStopReasonMap :: "string option \<Rightarrow> string option" where
  "specStopReasonMap r =
     (case r of
        None \<Rightarrow> None
      | Some s \<Rightarrow> if s = ''end_turn'' then Some ''stop''
                  else if s = ''tool_use'' then Some ''tool_calls''
                  else Some s)"

subsection \<open>Frames and states of the examples\<close>

definition emptyEvent :: "string \<Rightarrow> AnthropicStreamEvent" where
  "emptyEvent kind =
     \<lparr> ev_type = kind, ev_message = None, ev_content_block = None, ev_delta = None,
       ev_index = None, ev_model = None, ev_stop_reason = None, ev_usage = None \<rparr>"

definition emptyUsage :: Usage where
  "emptyUsage =
     \<lparr> u_input_tokens = None, u_output_tokens = None,
       u_cache_creation_input_tokens = None, u_cache_read_input_tokens = None \<rparr>"

definition emptyAnthropicDelta :: AnthropicDelta where
  "emptyAnthropicDelta = \<lparr> d_text = None, d_partial_json = None, d_stop_reason = None \<rparr>"

definition usageFrame :: AnthropicStreamEvent where
  "usageFrame = (emptyEvent ''message_delta'')
     \<lparr> ev_usage := Some (emptyUsage \<lparr> u_input_tokens := Some 3, u_output_tokens := Some 2 \<rparr>) \<rparr>"

definition startFrame :: AnthropicStreamEvent where
  "startFrame = (emptyEvent ''message_start'')
     \<lparr> ev_message := Some \<lparr> msg_id = Some ''msg_01'', msg_model = Some ''claude-x'',
          msg_usage = Some (emptyUsage \<lparr> u_input_tokens := Some 10 \<rparr>), msg_stop_reason = None \<rparr> \<rparr>"

definition toolStartFrame :: "int \<Rightarrow> string \<Rightarrow> string \<Rightarrow> AnthropicStreamEvent" where
  "toolStartFrame i tid nm = (emptyEvent ''content_block_start'')
     \<lparr> ev_content_block := Some \<lparr> cb_type = ''tool_use'', cb_id = Some tid, cb_name = Some nm,
                                   cb_text = None, cb_input = None \<rparr>,
       ev_index := Some i \<rparr>"

definition argsFrame :: "int \<Rightarrow> string \<Rightarrow> AnthropicStreamEvent" where
  "argsFrame i f = (emptyEvent ''content_block_delta'')
     \<lparr> ev_delta := Some (emptyAnthropicDelta \<lparr> d_partial_json := Some f \<rparr>), ev_index := Some i \<rparr>"

definition exampleLines :: "AnthropicStreamEvent option list" where
  "exampleLines = [Some (toolStartFrame 0 ''call_1'' ''lookup''), None,
                   Some (argsFrame 0 ''ab''), Some (argsFrame 0 ''cd'')]"

definition pingFrame :: AnthropicStreamEvent where
  "pingFrame = (emptyEvent ''ping'')
     \<lparr> ev_usage := Some (emptyUsage \<lparr> u_input_tokens := Some 5 \<rparr>),
       ev_stop_reason := Some ''end_turn'' \<rparr>"

definition cacheFrame :: AnthropicStreamEvent where
  "cacheFrame = (emptyEvent ''message_delta'')
     \<lparr> ev_usage := Some (emptyUsage \<lparr> u_cache_read_input_tokens := Some 7 \<rparr>) \<rparr>"

definition stopFrame :: AnthropicStreamEvent where
  "stopFrame = (emptyEvent ''message_stop'')
     \<lparr> ev_usage := Some (emptyUsage \<lparr> u_output_tokens := Some 4 \<rparr>) \<rparr>"

definition textBlock :: "string \<Rightarrow> AnthropicContentBlock" where
  "textBlock t = \<lparr> cb_type = ''text'', cb_id = None, cb_name = None, cb_text = Some t, cb_input = None \<rparr>"

definition toolBlock :: "string option \<Rightarrow> string option \<Rightarrow> json option \<Rightarrow> AnthropicContentBlock" where
  "toolBlock tid nm inp =
     \<lparr> cb_type = ''tool_use'', cb_id = tid, cb_name = nm, cb_text = None, cb_input = inp \<rparr>"

definition helloResponse :: AnthropicResponse where
  "helloResponse =
     \<lparr> ar_id = Some ''msg_01'', ar_model = Some ''claude-x'', ar_stop_reason = Some ''end_turn'',
       ar_content = Some [textBlock ''Hello, '',
                          toolBlock (Some ''t1'') (Some ''lookup'') (Some (JObj [(''q'', JStr ''x'')])),
                          textBlock ''world''],
       ar_usage = None \<rparr>"

definition emptyTextResponse :: AnthropicResponse where
  "emptyTextResponse =
     \<lparr> ar_id = Some ''msg_01'', ar_model = Some ''claude-x'', ar_stop_reason = Some ''end_turn'',
       ar_content = Some [\<lparr> cb_type = ''text'', cb_id = None, cb_name = None, cb_text = Some [],
                            cb_input = None \<rparr>],
       ar_usage = None \<rparr>"

definition zeroInputResponse :: AnthropicResponse where
  "zeroInputResponse =
     \<lparr> ar_id = Some ''msg_01'', ar_model = Some ''claude-x'', ar_stop_reason = Some ''tool_use'',
       ar_content = Some [toolBlock (Some ''t1'') (Some ''lookup'') (Some (JNum 0))],
       ar_usage = None \<rparr>"

definition lookupResponse :: AnthropicResponse where
  "lookupResponse =
     \<lparr> ar_id = Some ''msg_01'', ar_model = Some ''claude-x'', ar_stop_reason = Some ''tool_use'',
       ar_content = Some [toolBlock (Some ''t1'') (Some ''lookup'') (Some (JObj [(''q'', JStr ''x'')]))],
       ar_usage = None \<rparr>"

definition emptyStopResponse :: AnthropicResponse where
  "emptyStopResponse =
     \<lparr> ar_id = Some ''msg_01'', ar_model = Some ''claude-x'', ar_stop_reason = Some [],
       ar_content = Some [textBlock ''hi''], ar_usage = None \<rparr>"

definition stopDeltaFrame :: "string \<Rightarrow> AnthropicStreamEvent" where
  "stopDeltaFrame r = (emptyEvent ''message_delta'')
     \<lparr> ev_delta := Some (emptyAnthropicDelta \<lparr> d_stop_reason := Some r \<rparr>) \<rparr>"

definition roleChunk :: OpenAIStreamChunk where
  "roleChunk =
     \<lparr> chunk_id = ''chatcmpl-01'', chunk_object = ''chat.completion.chunk'', chunk_created = 1,
       chunk_model = Some ''claude-x'',
       chunk_choices = [\<lparr> sc_index = 0,
                          sc_delta = \<lparr> delta_role = Some ''assistant'', delta_content = Some [],
                                       delta_tool_calls = None \<rparr>,
                          sc_finish_reason = None \<rparr>],
       chunk_usage = None \<rparr>"

definition snapshotTracker :: ToolCallTracker where
  "snapshotTracker = \<lparr> tc_id = ''t1'', tc_name = ''lookup'', tc_arguments = ''{\"a\":1'' \<rparr>"

definition snapshotState :: ConverterState where
  "snapshotState = createConverterState \<lparr> toolCallsTracker := [0 \<mapsto> snapshotTracker] \<rparr>"

definition pingUsageFrame :: AnthropicStreamEvent where
  "pingUsageFrame = (emptyEvent ''ping'')
     \<lparr> ev_usage := Some (emptyUsage \<lparr> u_input_tokens := Some 5, u_output_tokens := Some 1 \<rparr>) \<rparr>"

definition negativeUsageFrame :: AnthropicStreamEvent where
  "negativeUsageFrame = (emptyEvent ''message_delta'')
     \<lparr> ev_usage := Some (emptyUsage \<lparr> u_input_tokens := Some (- 5) \<rparr>) \<rparr>"


section \<open>Metrics aggregator: what one frame adds\<close>

lemma addUsage_fields [simp]:
  "input_tokens (addUsage md u) = input_tokens md + or_zero (u_input_tokens u)"
  "output_tokens (addUsage md u) = output_tokens md + or_zero (u_output_tokens u)"
  "cache_creation_input_tokens (addUsage md u) =
     cache_creation_input_tokens md + or_zero (u_cache_creation_input_tokens u)"
  "cache_read_input_tokens (addUsage md u) =
     cache_read_input_tokens md + or_zero (u_cache_read_input_tokens u)"
  "stop_reason (addUsage md u) = stop_reason md"
  by (simp_all add: addUsage_def)

text \<open>The five statements that leave the counters alone.\<close>

lemma counters_kept:
  "input_tokens (onMessageStart md d) = input_tokens md"
  "output_tokens (onMessageStart md d) = output_tokens md"
  "cache_creation_input_tokens (onMessageStart md d) = cache_creation_input_tokens md"
  "cache_read_input_tokens (onMessageStart md d) = cache_read_input_tokens md"
  "input_tokens (onModel md d) = input_tokens md"
  "output_tokens (onModel md d) = output_tokens md"
  "cache_creation_input_tokens (onModel md d) = cache_creation_input_tokens md"
  "cache_read_input_tokens (onModel md d) = cache_read_input_tokens md"
  "input_tokens (onStopReason md d) = input_tokens md"
  "output_tokens (onStopReason md d) = output_tokens md"
  "cache_creation_input_tokens (onStopReason md d) = cache_creation_input_tokens md"
  "cache_read_input_tokens (onStopReason md d) = cache_read_input_tokens md"
  "input_tokens (onDeltaStopReason md d) = input_tokens md"
  "output_tokens (onDeltaStopReason md d) = output_tokens md"
  "cache_creation_input_tokens (onDeltaStopReason md d) = cache_creation_input_tokens md"
  "cache_read_input_tokens (onDeltaStopReason md d) = cache_read_input_tokens md"
  "input_tokens (onMessageStopReason md d) = input_tokens md"
  "output_tokens (onMessageStopReason md d) = output_tokens md"
  "cache_creation_input_tokens (onMessageStopReason md d) = cache_creation_input_tokens md"
  "cache_read_input_tokens (onMessageStopReason md d) = cache_read_input_tokens md"
  by (simp_all add: onMessageStart_def onModel_def onStopReason_def onDeltaStopReason_def
      onMessageStopReason_def split: option.split)

text \<open>The two statements that add to them.\<close>

lemma counters_added:
  "input_tokens (onUsage md d) = input_tokens md + usageInput (ev_usage d)"
  "output_tokens (onUsage md d) = output_tokens md + usageOutput (ev_usage d)"
  "cache_creation_input_tokens (onUsage md d) =
     cache_creation_input_tokens md + usageCacheCreation (ev_usage d)"
  "cache_read_input_tokens (onUsage md d) = cache_read_input_tokens md + usageCacheRead (ev_usage d)"
  "input_tokens (onMessageUsage md d) = input_tokens md + usageInput (messageUsage d)"
  "output_tokens (onMessageUsage md d) = output_tokens md + usageOutput (messageUsage d)"
  "cache_creation_input_tokens (onMessageUsage md d) =
     cache_creation_input_tokens md + usageCacheCreation (messageUsage d)"
  "cache_read_input_tokens (onMessageUsage md d) =
     cache_read_input_tokens md + usageCacheRead (messageUsage d)"
  by (simp_all add: onUsage_def onMessageUsage_def usageInput_def usageOutput_def
      usageCacheCreation_def usageCacheRead_def messageUsage_def split: option.split)

lemma updateMetrics_input_tokens:
  "input_tokens (updateMetrics md data) = input_tokens md + frameInputTokens data"
  by (simp add: updateMetrics_def Let_def counters_kept counters_added frameInputTokens_def)

lemma updateMetrics_output_tokens:
  "output_tokens (updateMetrics md data) = output_tokens md + frameOutputTokens data"
  by (simp add: updateMetrics_def Let_def counters_kept counters_added frameOutputTokens_def)

lemma updateMetrics_cache_creation:
  "cache_creation_input_tokens (updateMetrics md data) =
     cache_creation_input_tokens md + frameCacheCreationTokens data"
  by (simp add: updateMetrics_def Let_def counters_kept counters_added
      frameCacheCreationTokens_def)

lemma updateMetrics_cache_read:
  "cache_read_input_tokens (updateMetrics md data) =
     cache_read_input_tokens md + frameCacheReadTokens data"
  by (simp add: updateMetrics_def Let_def counters_kept counters_added frameCacheReadTokens_def)

text \<open>The stop reason: three statements may set it, the last one that does wins.\<close>

lemma stop_reason_kept:
  "stop_reason (onMessageStart md d) = stop_reason md"
  "stop_reason (onModel md d) = stop_reason md"
  "stop_reason (onUsage md d) = stop_reason md"
  "stop_reason (onMessageUsage md d) = stop_reason md"
  by (simp_all add: onMessageStart_def onModel_def onUsage_def onMessageUsage_def
      split: option.split)

lemma stop_reason_set:
  "stop_reason (onStopReason md d) =
     (if truthy (ev_stop_reason d) then ev_stop_reason d else stop_reason md)"
  "stop_reason (onDeltaStopReason md d) =
     (if ev_type d = ''message_delta'' \<and> truthy (deltaStopReason d) then deltaStopReason d
      else stop_reason md)"
  "stop_reason (onMessageStopReason md d) =
     (if truthy (messageStopReason d) then messageStopReason d else stop_reason md)"
  by (simp_all add: onStopReason_def onDeltaStopReason_def onMessageStopReason_def
      deltaStopReason_def messageStopReason_def truthy_def split: option.split)

lemma truthy_Some: "truthy r \<Longrightarrow> \<exists>s. r = Some s"
  by (cases r) (simp_all add: truthy_def)

lemma updateMetrics_stop_reason:
  "stop_reason (updateMetrics md data) =
     (case frameStopReason data of None \<Rightarrow> stop_reason md | Some r \<Rightarrow> Some r)"
  by (auto simp: updateMetrics_def Let_def stop_reason_kept stop_reason_set frameStopReason_def
      dest: truthy_Some)

lemma foldl_updateMetrics_input:
  "input_tokens (foldl updateMetrics md frames) =
     input_tokens md + sum_list (map frameInputTokens frames)"
  by (induction frames arbitrary: md) (simp_all add: updateMetrics_input_tokens)

lemma foldl_updateMetrics_output:
  "output_tokens (foldl updateMetrics md frames) =
     output_tokens md + sum_list (map frameOutputTokens frames)"
  by (induction frames arbitrary: md) (simp_all add: updateMetrics_output_tokens)

lemma sum_list_nonneg_int:
  "(\<forall>x \<in> set xs. (0::int) \<le> f x) \<Longrightarrow> 0 \<le> sum_list (map f xs)"
  by (induction xs) simp_all

section \<open>Stream translator: the branches\<close>

lemma isToolStart_type: "isToolStart d \<Longrightarrow> ev_type d = ''content_block_start''"
  by (simp add: isToolStart_def)


lemma transformToOpenAI_tool_start:
  "isToolStart d \<Longrightarrow>
   transformToOpenAI now st d =
     (let cb = the (ev_content_block d);
          st' = st\<lparr> toolCallsTracker := (toolCallsTracker st)(indexOf d \<mapsto>
                  \<lparr> tc_id = (case cb_id cb of None \<Rightarrow> [] | Some v \<Rightarrow> v),
                    tc_name = (case cb_name cb of None \<Rightarrow> [] | Some v \<Rightarrow> v),
                    tc_arguments = [] \<rparr>) \<rparr>
      in Inr (st',
           Some (mkChunk now st'
             \<lparr> delta_role = None, delta_content = None,
               delta_tool_calls = Some
                 [\<lparr> tcd_index = indexOf d, tcd_id = cb_id cb, tcd_type = Some ''function'',
                    tcd_function = Some \<lparr> fn_name = cb_name cb, fn_arguments = Some [] \<rparr> \<rparr>] \<rparr>
             None)))"
  by (simp add: transformToOpenAI_def isToolStart_type)

lemma transformToOpenAI_tool_delta:
  "ev_type d = ''content_block_delta'' \<Longrightarrow> truthy (partialJson d) \<Longrightarrow>
   transformToOpenAI now st d =
     (case toolCallsTracker st (indexOf d) of
        None \<Rightarrow> Inr (st, None)
      | Some toolCall \<Rightarrow>
          (let (newPart, toolCall') = resolveDelta toolCall (the (partialJson d));
               st' = st\<lparr> toolCallsTracker := (toolCallsTracker st)(indexOf d \<mapsto> toolCall') \<rparr>
           in Inr (st',
                Some (mkChunk now st'
                  \<lparr> delta_role = None, delta_content = None,
                    delta_tool_calls = Some
                      [\<lparr> tcd_index = indexOf d, tcd_id = None, tcd_type = None,
                         tcd_function = Some \<lparr> fn_name = None, fn_arguments = Some newPart \<rparr> \<rparr>] \<rparr>
                  None))))"
  by (simp add: transformToOpenAI_def isToolStart_def)

lemma transformToOpenAI_no_tool:
  "\<not> isToolStart d \<Longrightarrow> \<not> (ev_type d = ''content_block_delta'' \<and> truthy (partialJson d)) \<Longrightarrow>
   transformToOpenAI now st d = Inr (st', c) \<Longrightarrow> toolCallsTracker st' = toolCallsTracker st"
  by (auto simp: transformToOpenAI_def Let_def split: if_splits option.splits)

lemma transformToOpenAI_no_tool_args:
  "\<not> isToolStart d \<Longrightarrow> \<not> (ev_type d = ''content_block_delta'' \<and> truthy (partialJson d)) \<Longrightarrow>
   transformToOpenAI now st d = Inr (st', Some c) \<Longrightarrow>
   \<forall>ch \<in> set (chunk_choices c). delta_tool_calls (sc_delta ch) = None"
  by (auto simp: transformToOpenAI_def Let_def mkChunk_def emptyDelta_def split: if_splits option.splits)

lemma transformToOpenAI_choices:
  "transformToOpenAI now st d = Inr (st', Some c) \<Longrightarrow> map sc_index (chunk_choices c) = [0]"
  by (auto simp: transformToOpenAI_def Let_def mkChunk_def split: if_splits option.splits prod.splits)

lemma processData_ignored: "ignoredKind d \<Longrightarrow> processData now st d = (st, [])"
  by (auto simp: processData_def ignoredKind_def)

lemma processData_step:
  "\<not> ignoredKind d \<Longrightarrow>
   processData now st d =
     (let state1 = st\<lparr> metricsData := updateMetrics (metricsData st) d \<rparr>
      in case transformToOpenAI now state1 d of
           Inl e \<Rightarrow> (state1, [])
         | Inr (state2, openAIChunk) \<Rightarrow>
             (let results = (case openAIChunk of Some c \<Rightarrow> [Chunk c] | None \<Rightarrow> [])
              in if ev_type d = ''message_stop''
                 then (state2,
                       results
                       @ (case createUsageChunk now state2 of Some u \<Rightarrow> [Chunk u] | None \<Rightarrow> [])
                       @ [Done])
                 else (state2, results)))"
  by (auto simp: processData_def ignoredKind_def)


section \<open>Delta tracker: tracked and emitted argument text\<close>

lemma emittedArgs_simps [simp]:
  "emittedArgs i [] = []"
  "emittedArgs i (r # rs) = resultArgs i r @ emittedArgs i rs"
  "emittedArgs i (rs @ rs') = emittedArgs i rs @ emittedArgs i rs'"
  by (simp_all add: emittedArgs_def)

lemma resolveDelta_concat:
  "resolveDelta tc f = (newPart, tc') \<Longrightarrow> tc_arguments tc' = tc_arguments tc @ newPart"
  by (auto simp: resolveDelta_def prefix_def split: if_splits)

lemma createUsageChunk_args:
  "createUsageChunk now st = Some u \<Longrightarrow> ch \<in> set (chunk_choices u) \<Longrightarrow> choiceArgs i ch = []"
  by (auto simp: createUsageChunk_def choiceArgs_def emptyDelta_def split: if_splits)

lemma tracker_metrics_update [simp]:
  "toolCallsTracker (st\<lparr> metricsData := m \<rparr>) = toolCallsTracker st"
  by simp

lemma trackedArgs_metrics [simp]: "trackedArgs (st\<lparr> metricsData := m \<rparr>) i = trackedArgs st i"
  by (simp add: trackedArgs_def)

text \<open>One frame: what the tracker holds afterwards is what it held plus what was emitted.\<close>

lemma transformToOpenAI_args:
  assumes "isToolStart d \<longrightarrow> trackedArgs st (indexOf d) = []"
    and "transformToOpenAI now st d = Inr (st', c)"
  shows "trackedArgs st' i =
           trackedArgs st i @ (case c of None \<Rightarrow> [] | Some ch \<Rightarrow> resultArgs i (Chunk ch))"
proof (cases "isToolStart d")
  case True
  with assms show ?thesis
    by (auto simp: transformToOpenAI_tool_start Let_def trackedArgs_def mkChunk_def
        choiceArgs_def callArgs_def)
next
  case nstart: False
  show ?thesis
  proof (cases "ev_type d = ''content_block_delta'' \<and> truthy (partialJson d)")
    case True
    show ?thesis
    proof (cases "toolCallsTracker st (indexOf d)")
      case None
      with True assms(2) show ?thesis
        by (auto simp: transformToOpenAI_tool_delta)
    next
      case (Some tc)
      obtain newPart tc' where r: "resolveDelta tc (the (partialJson d)) = (newPart, tc')"
        by (cases "resolveDelta tc (the (partialJson d))")
      from True Some r assms(2) resolveDelta_concat [OF r] show ?thesis
        by (auto simp: transformToOpenAI_tool_delta Let_def trackedArgs_def mkChunk_def
            choiceArgs_def callArgs_def)
    qed
  next
    case False
    from transformToOpenAI_no_tool [OF nstart False assms(2)]
    have t: "toolCallsTracker st' = toolCallsTracker st" .
    have "(case c of None \<Rightarrow> [] | Some ch \<Rightarrow> resultArgs i (Chunk ch)) = []"
    proof (cases c)
      case None
      then show ?thesis by simp
    next
      case (Some ch)
      with transformToOpenAI_no_tool_args [OF nstart False] assms(2)
      have "\<forall>x \<in> set (chunk_choices ch). delta_tool_calls (sc_delta x) = None" by blast
      then have "concat (map (choiceArgs i) (chunk_choices ch)) = []"
        by (simp add: choiceArgs_def)
      with Some show ?thesis by simp
    qed
    with t show ?thesis by (simp add: trackedArgs_def)
  qed
qed

lemma processData_args:
  assumes "isToolStart d \<longrightarrow> trackedArgs st (indexOf d) = []"
  shows "trackedArgs (fst (processData now st d)) i =
           trackedArgs st i @ emittedArgs i (snd (processData now st d))"
proof (cases "ignoredKind d")
  case True
  then show ?thesis by (simp add: processData_ignored)
next
  case False
  let ?st1 = "st\<lparr> metricsData := updateMetrics (metricsData st) d \<rparr>"
  show ?thesis
  proof (cases "transformToOpenAI now ?st1 d")
    case (Inl e)
    with False show ?thesis by (simp add: processData_step)
  next
    case (Inr p)
    obtain st2 c where p: "p = (st2, c)" by (cases p)
    from assms have "isToolStart d \<longrightarrow> trackedArgs ?st1 (indexOf d) = []" by simp
    from transformToOpenAI_args [OF this, of now st2 c i] Inr p
    have a: "trackedArgs st2 i =
               trackedArgs st i @ (case c of None \<Rightarrow> [] | Some ch \<Rightarrow> resultArgs i (Chunk ch))"
      by simp
    from False Inr p a show ?thesis
      by (auto simp: processData_step createUsageChunk_args split: option.splits)
  qed
qed








section \<open>Stream translator: metrics, terminal signal, choices\<close>

lemma transformToOpenAI_metrics:
  "transformToOpenAI now st d = Inr (st', c) \<Longrightarrow>
   input_tokens (metricsData st') = input_tokens (metricsData st) \<and>
   output_tokens (metricsData st') = output_tokens (metricsData st) \<and>
   cache_creation_input_tokens (metricsData st') = cache_creation_input_tokens (metricsData st) \<and>
   cache_read_input_tokens (metricsData st') = cache_read_input_tokens (metricsData st) \<and>
   stop_reason (metricsData st') = stop_reason (metricsData st) \<and>
   model (metricsData st') = model (metricsData st)"
  by (auto simp: transformToOpenAI_def Let_def split: if_splits option.splits prod.splits)

lemma processData_state_cases:
  "\<not> ignoredKind d \<Longrightarrow>
   fst (processData now st d) = st\<lparr> metricsData := updateMetrics (metricsData st) d \<rparr> \<or>
   (\<exists>c. transformToOpenAI now (st\<lparr> metricsData := updateMetrics (metricsData st) d \<rparr>) d
          = Inr (fst (processData now st d), c))"
  by (auto simp: processData_step Let_def split: sum.splits prod.splits)

lemma processData_metrics:
  assumes "\<not> ignoredKind d"
  shows "input_tokens (metricsData (fst (processData now st d))) =
           input_tokens (metricsData st) + frameInputTokens d"
    and "output_tokens (metricsData (fst (processData now st d))) =
           output_tokens (metricsData st) + frameOutputTokens d"
    and "cache_creation_input_tokens (metricsData (fst (processData now st d))) =
           cache_creation_input_tokens (metricsData st) + frameCacheCreationTokens d"
    and "cache_read_input_tokens (metricsData (fst (processData now st d))) =
           cache_read_input_tokens (metricsData st) + frameCacheReadTokens d"
    and "stop_reason (metricsData (fst (processData now st d))) =
           (case frameStopReason d of None \<Rightarrow> stop_reason (metricsData st) | Some r \<Rightarrow> Some r)"
  using processData_state_cases [OF assms, of now st]
  by (auto simp: updateMetrics_input_tokens updateMetrics_output_tokens
      updateMetrics_cache_creation updateMetrics_cache_read updateMetrics_stop_reason
      dest!: transformToOpenAI_metrics)

lemma message_stop_not_ignored: "ev_type d = ''message_stop'' \<Longrightarrow> \<not> ignoredKind d"
  by (simp add: ignoredKind_def)

lemma transformToOpenAI_message_stop:
  "ev_type d = ''message_stop'' \<Longrightarrow> transformToOpenAI now st d = Inr (st, None)"
  by (simp add: transformToOpenAI_def isToolStart_def)

lemma processData_message_stop:
  "ev_type d = ''message_stop'' \<Longrightarrow>
   processData now st d =
     (st\<lparr> metricsData := updateMetrics (metricsData st) d \<rparr>,
      (case createUsageChunk now (st\<lparr> metricsData := updateMetrics (metricsData st) d \<rparr>) of
         Some u \<Rightarrow> [Chunk u] | None \<Rightarrow> []) @ [Done])"
  by (simp add: processData_step message_stop_not_ignored transformToOpenAI_message_stop Let_def)

lemma processData_no_done:
  "ev_type d \<noteq> ''message_stop'' \<Longrightarrow> Done \<notin> set (snd (processData now st d))"
  by (cases "ignoredKind d")
     (auto simp: processData_ignored processData_step Let_def split: sum.splits option.splits)

lemma processData_count_done:
  "count_list (snd (processData now st d)) Done = (if ev_type d = ''message_stop'' then 1 else 0)"
proof (cases "ev_type d = ''message_stop''")
  case True
  then show ?thesis by (simp add: processData_message_stop split: option.splits)
next
  case False
  from processData_no_done [OF False] show ?thesis using False by (simp add: count_list_0_iff)
qed

lemma count_list_append': "count_list (xs @ ys) a = count_list xs a + count_list ys a"
  by (induction xs) auto

lemma processChunk_count_done:
  "count_list (snd (processChunk now st lines)) Done = length (filter isStopLine lines)"
proof (induction lines arbitrary: st)
  case Nil
  then show ?case by simp
next
  case (Cons l lines)
  show ?case
  proof (cases l)
    case None
    with Cons show ?thesis by (simp add: isStopLine_def)
  next
    case (Some d)
    with Cons [of "fst (processData now st d)"] show ?thesis
      by (simp add: split_beta count_list_append' processData_count_done isStopLine_def)
  qed
qed


lemma createUsageChunk_eq:
  "createUsageChunk now st =
     (if input_tokens (metricsData st) = 0 \<and> output_tokens (metricsData st) = 0 then None
      else Some \<lparr> chunk_id = chunkId now st, chunk_object = ''chat.completion.chunk'',
                  chunk_created = now div 1000, chunk_model = chunkModel st,
                  chunk_choices = [\<lparr> sc_index = 0, sc_delta = emptyDelta, sc_finish_reason = None \<rparr>],
                  chunk_usage = Some \<lparr> prompt_tokens = input_tokens (metricsData st),
                    completion_tokens = output_tokens (metricsData st),
                    total_tokens = input_tokens (metricsData st) + output_tokens (metricsData st) \<rparr> \<rparr>)"
  by (simp add: createUsageChunk_def)

lemma delta_not_ignored: "ev_type d = ''content_block_delta'' \<Longrightarrow> \<not> ignoredKind d"
  by (simp add: ignoredKind_def)

lemma stopReasonSnapshot_truthy: "truthy r \<Longrightarrow> stopReasonSnapshot r = specStopReasonMap r"
  by (cases r) (auto simp: stopReasonSnapshot_def specStopReasonMap_def truthy_def)

lemma stopReasonSnapshot_falsy: "\<not> truthy r \<Longrightarrow> stopReasonSnapshot r = None"
  by (cases r) (auto simp: stopReasonSnapshot_def truthy_def)

lemma stopReasonStream_spec:
  "truthy r \<Longrightarrow> Some (stopReasonStream (the r)) = specStopReasonMap r"
  by (cases r) (auto simp: stopReasonStream_def specStopReasonMap_def truthy_def)

lemma message_delta_not_ignored: "ev_type d = ''message_delta'' \<Longrightarrow> \<not> ignoredKind d"
  by (simp add: ignoredKind_def)

lemma transformToOpenAI_message_delta:
  "ev_type d = ''message_delta'' \<Longrightarrow>
   transformToOpenAI now st d =
     (if truthy (deltaStopReason d)
      then Inr (st, Some (mkChunk now st emptyDelta (Some (stopReasonStream (the (deltaStopReason d))))))
      else Inr (st, None))"
  by (simp add: transformToOpenAI_def isToolStart_def)

lemma processData_message_delta:
  "ev_type d = ''message_delta'' \<Longrightarrow>
   snd (processData now st d) =
     (if truthy (deltaStopReason d)
      then [Chunk (mkChunk now (st\<lparr> metricsData := updateMetrics (metricsData st) d \<rparr>) emptyDelta
                     (Some (stopReasonStream (the (deltaStopReason d)))))]
      else [])"
  by (simp add: processData_step message_delta_not_ignored transformToOpenAI_message_delta Let_def)

lemma createUsageChunk_choices:
  "createUsageChunk now st = Some u \<Longrightarrow> map sc_index (chunk_choices u) = [0]"
  by (auto simp: createUsageChunk_def split: if_splits)

lemma processData_choices:
  "Chunk c \<in> set (snd (processData now st d)) \<Longrightarrow> map sc_index (chunk_choices c) = [0]"
proof (cases "ignoredKind d")
  case True
  assume "Chunk c \<in> set (snd (processData now st d))"
  with True show ?thesis by (simp add: processData_ignored)
next
  case False
  assume m: "Chunk c \<in> set (snd (processData now st d))"
  let ?st1 = "st\<lparr> metricsData := updateMetrics (metricsData st) d \<rparr>"
  show ?thesis
  proof (cases "transformToOpenAI now ?st1 d")
    case (Inl e)
    with False m show ?thesis by (simp add: processData_step)
  next
    case (Inr p)
    obtain st2 oc where p: "p = (st2, oc)" by (cases p)
    from m False Inr p
    have "oc = Some c \<or> createUsageChunk now st2 = Some c"
      by (auto simp: processData_step Let_def split: option.splits if_splits)
    then show ?thesis
    proof
      assume "oc = Some c"
      with Inr p show ?thesis by (auto dest: transformToOpenAI_choices)
    next
      assume "createUsageChunk now st2 = Some c"
      then show ?thesis by (rule createUsageChunk_choices)
    qed
  qed
qed

lemma processChunk_choices:
  "Chunk c \<in> set (snd (processChunk now st lines)) \<Longrightarrow> map sc_index (chunk_choices c) = [0]"
proof (induction lines arbitrary: st)
  case Nil
  then show ?case by simp
next
  case (Cons l lines)
  show ?case
  proof (cases l)
    case None
    with Cons show ?thesis by simp
  next
    case (Some d)
    with Cons.prems
    have "Chunk c \<in> set (snd (processData now st d))
          \<or> Chunk c \<in> set (snd (processChunk now (fst (processData now st d)) lines))"
      by (auto simp: split_beta)
    then show ?thesis
      using processData_choices Cons.IH by blast
  qed
qed

lemma processData_no_tool:
  assumes "\<not> isToolStart d" and "\<not> (ev_type d = ''content_block_delta'' \<and> truthy (partialJson d))"
  shows "toolCallsTracker (fst (processData now st d)) = toolCallsTracker st"
    and "emittedArgs i (snd (processData now st d)) = []"
proof -
  from assms(1) have ns: "isToolStart d \<longrightarrow> trackedArgs st (indexOf d) = []" by simp
  show t: "toolCallsTracker (fst (processData now st d)) = toolCallsTracker st"
  proof (cases "ignoredKind d")
    case True
    then show ?thesis by (simp add: processData_ignored)
  next
    case False
    from processData_state_cases [OF False, of now st] show ?thesis
      by (auto dest: transformToOpenAI_no_tool [OF assms])
  qed
  from processData_args [OF ns, of now i] t show "emittedArgs i (snd (processData now st d)) = []"
    by (simp add: trackedArgs_def)
qed

lemma processChunk_tokens:
  "input_tokens (metricsData (fst (processChunk now st lines))) =
     input_tokens (metricsData st) + sum_list (map frameInputTokens (absorbedFrames lines))"
  "output_tokens (metricsData (fst (processChunk now st lines))) =
     output_tokens (metricsData st) + sum_list (map frameOutputTokens (absorbedFrames lines))"
proof (induction lines arbitrary: st)
  case Nil
  { case 1 show ?case by simp }
  { case 2 show ?case by simp }
next
  case (Cons l lines)
  { case 1
    show ?case
    proof (cases l)
      case None
      with Cons.IH(1) show ?thesis by simp
    next
      case (Some d)
      with Cons.IH(1) [of "fst (processData now st d)"] show ?thesis
        by (cases "ignoredKind d")
           (simp_all add: split_beta processData_ignored processData_metrics)
    qed }
  { case 2
    show ?case
    proof (cases l)
      case None
      with Cons.IH(2) show ?thesis by simp
    next
      case (Some d)
      with Cons.IH(2) [of "fst (processData now st d)"] show ?thesis
        by (cases "ignoredKind d")
           (simp_all add: split_beta processData_ignored processData_metrics)
    qed }
qed

lemma absorbedFrames_append:
  "absorbedFrames (pre @ post) = absorbedFrames pre @ absorbedFrames post"
  by (induction pre rule: absorbedFrames.induct) simp_all

lemma transformToOpenAI_plain_delta:
  "ev_type d = ''content_block_delta'' \<Longrightarrow> \<not> truthy (partialJson d) \<Longrightarrow> \<not> truthy (deltaText d) \<Longrightarrow>
   transformToOpenAI now st d = Inr (st, None)"
  by (simp add: transformToOpenAI_def isToolStart_def)

section \<open>Snapshot translator: the loop over the content blocks\<close>

lemma isTextBlock_not_tool: "isTextBlock b \<Longrightarrow> \<not> isToolBlock b"
  by (simp add: isTextBlock_def isToolBlock_def)

lemma contentBlocks_eq:
  "contentBlocks stringify bs (t, cs) =
     (t @ concat (map appendedText (filter isTextBlock bs)),
      cs @ map (toolCallOf stringify) (filter isToolBlock bs))"
proof (induction bs arbitrary: t cs)
  case Nil
  then show ?case by simp
next
  case (Cons b bs)
  show ?case
  proof (cases "isTextBlock b")
    case True
    with Cons isTextBlock_not_tool [OF True] show ?thesis
      by (simp add: isTextBlock_def appendedText_def)
  next
    case False
    with Cons show ?thesis
      by (simp add: isTextBlock_def isToolBlock_def toolCallOf_def)
  qed
qed

lemma convert_content:
  "responseContent (convertNonStreamingResponse stringify now resp) =
     [if concat (map appendedText (filter isTextBlock (responseBlocks resp))) \<noteq> []
      then Some (concat (map appendedText (filter isTextBlock (responseBlocks resp)))) else None]"
  by (simp add: convertNonStreamingResponse_def responseContent_def responseBlocks_def
      contentBlocks_eq del: concat_eq_Nil_conv)

lemma convert_tool_calls:
  "responseToolCalls (convertNonStreamingResponse stringify now resp) =
     [map (toolCallOf stringify) (filter isToolBlock (responseBlocks resp))]"
  by (simp add: convertNonStreamingResponse_def responseToolCalls_def responseBlocks_def
      contentBlocks_eq)

lemma convert_finish_reason:
  "responseFinishReason (convertNonStreamingResponse stringify now resp) =
     [stopReasonSnapshot (ar_stop_reason resp)]"
  by (simp add: convertNonStreamingResponse_def responseFinishReason_def split_beta)

lemma convert_choices:
  "map ch_index (resp_choices (convertNonStreamingResponse stringify now resp)) = [0]"
  by (simp add: convertNonStreamingResponse_def split_beta)


section \<open>The claims\<close>

subsection \<open>C1: which frames reach the metrics\<close>

text \<open>
  Against claim C1 as stated: a \<open>ping\<close> frame that carries 5 input tokens and the stop
  reason \<open>end_turn\<close> is of an ignored kind; processing it leaves the counter at 0 and
  the stop reason unset, and emits nothing.
\<close>

theorem C1_ignored_kind_counterexample:
  "ignoredKind pingFrame
   \<and> frameInputTokens pingFrame = 5
   \<and> frameStopReason pingFrame = Some ''end_turn''
   \<and> input_tokens (metricsData (fst (processData 0 createConverterState pingFrame))) = 0
   \<and> stop_reason (metricsData (fst (processData 0 createConverterState pingFrame))) = None
   \<and> snd (processData 0 createConverterState pingFrame) = []"
  by code_simp

text \<open>
  Claim C1, amended. A frame of an ignored kind (\<open>ping\<close>, \<open>content_block_stop\<close>,
  \<open>content_block_start\<close> of a text block) changes nothing and emits nothing. Every other
  frame is absorbed into the metrics before anything is emitted: its token counts (its own
  usage object and its message's) are added to the four counters, and its stop reason, if
  it has a non-empty one, is recorded (the frame's own or its message's on any kind, the
  delta's on \<open>message_delta\<close> only). On \<open>message_stop\<close> the usage chunk is built from
  the metrics so updated.
\<close>

theorem C1_metrics_before_emission:
  "(ignoredKind d \<longrightarrow> processData now st d = (st, []))
   \<and> (\<not> ignoredKind d \<longrightarrow>
        input_tokens (metricsData (fst (processData now st d))) =
          input_tokens (metricsData st) + frameInputTokens d
        \<and> output_tokens (metricsData (fst (processData now st d))) =
          output_tokens (metricsData st) + frameOutputTokens d
        \<and> cache_creation_input_tokens (metricsData (fst (processData now st d))) =
          cache_creation_input_tokens (metricsData st) + frameCacheCreationTokens d
        \<and> cache_read_input_tokens (metricsData (fst (processData now st d))) =
          cache_read_input_tokens (metricsData st) + frameCacheReadTokens d
        \<and> stop_reason (metricsData (fst (processData now st d))) =
          (case frameStopReason d of None \<Rightarrow> stop_reason (metricsData st) | Some r \<Rightarrow> Some r)
        \<and> (ev_type d = ''message_stop'' \<longrightarrow>
             snd (processData now st d) =
               (case createUsageChunk now (fst (processData now st d)) of
                  None \<Rightarrow> [] | Some u \<Rightarrow> [Chunk u]) @ [Done]))"
  by (simp add: processData_ignored processData_metrics processData_message_stop)

theorem C1_metrics_before_emission_witness:
  "ignoredKind pingFrame
   \<and> processData 0 createConverterState pingFrame = (createConverterState, [])
   \<and> \<not> ignoredKind stopFrame
   \<and> output_tokens (metricsData (fst (processData 0 createConverterState stopFrame))) = 4
   \<and> ev_type stopFrame = ''message_stop''
   \<and> map (\<lambda>r. case r of Done \<Rightarrow> None | Chunk c \<Rightarrow> chunk_usage c)
        (snd (processData 0 createConverterState stopFrame)) =
      [Some \<lparr> prompt_tokens = 0, completion_tokens = 4, total_tokens = 4 \<rparr>, None]"
proof -
  have a: "ignoredKind pingFrame" by code_simp
  have b: "\<not> ignoredKind stopFrame" by code_simp
  have c: "frameOutputTokens stopFrame = 4" by code_simp
  have d: "ev_type stopFrame = ''message_stop''" by code_simp
  have e: "output_tokens (metricsData createConverterState) = 0" by code_simp
  have f: "map (\<lambda>r. case r of Done \<Rightarrow> None | Chunk c \<Rightarrow> chunk_usage c)
        (snd (processData 0 createConverterState stopFrame)) =
      [Some \<lparr> prompt_tokens = 0, completion_tokens = 4, total_tokens = 4 \<rparr>, None]" by code_simp
  from C1_metrics_before_emission [of pingFrame 0 createConverterState] a
  have 1: "processData 0 createConverterState pingFrame = (createConverterState, [])" by simp
  from C1_metrics_before_emission [of stopFrame 0 createConverterState] b c e
  have 2: "output_tokens (metricsData (fst (processData 0 createConverterState stopFrame))) = 4"
    by simp
  from a 1 b 2 d f show ?thesis by simp
qed


subsection \<open>C2: delta resolution\<close>

text \<open>
  Claim C2. For a \<open>content_block_delta\<close> frame carrying the partial-argument fragment
  \<open>f\<close> for an index whose accumulator holds the buffer \<open>b\<close>: when \<open>b\<close> is non-empty and a
  prefix of \<open>f\<close>, the argument text emitted is \<open>f\<close> without its first \<open>length b\<close> units
  and the buffer becomes \<open>f\<close>; otherwise the text emitted is \<open>f\<close> and the buffer becomes
  \<open>b @ f\<close>. A non-empty fragment is emitted as one chunk. Feeding \<open>ab\<close>, \<open>cd\<close>, \<open>ef\<close>
  to a freshly introduced tool index emits \<open>ab\<close>, \<open>cd\<close>, \<open>ef\<close> and leaves \<open>abcdef\<close>
  accumulated.
\<close>

theorem C2_delta_resolution:
  "(ev_type d = ''content_block_delta'' \<and> partialJson d = Some f
      \<and> toolCallsTracker st (indexOf d) = Some tc \<longrightarrow>
    emittedArgs (indexOf d) (snd (processData now st d)) =
      (if tc_arguments tc \<noteq> [] \<and> prefix (tc_arguments tc) f
       then drop (length (tc_arguments tc)) f else f)
    \<and> toolCallsTracker (fst (processData now st d)) (indexOf d) =
      Some (tc\<lparr> tc_arguments :=
        (if tc_arguments tc \<noteq> [] \<and> prefix (tc_arguments tc) f then f else tc_arguments tc @ f) \<rparr>)
    \<and> (f \<noteq> [] \<longrightarrow>
         map (resultArgs (indexOf d)) (snd (processData now st d)) =
           [if tc_arguments tc \<noteq> [] \<and> prefix (tc_arguments tc) f
            then drop (length (tc_arguments tc)) f else f]))
   \<and> map (resultArgs 0)
        (snd (processChunk now (fst (processData now createConverterState (toolStartFrame 0 ''t1'' ''lookup'')))
           [Some (argsFrame 0 ''ab''), Some (argsFrame 0 ''cd''), Some (argsFrame 0 ''ef'')]))
      = [''ab'', ''cd'', ''ef'']
   \<and> trackedArgs
        (fst (processChunk now (fst (processData now createConverterState (toolStartFrame 0 ''t1'' ''lookup'')))
           [Some (argsFrame 0 ''ab''), Some (argsFrame 0 ''cd''), Some (argsFrame 0 ''ef'')])) 0
      = ''abcdef''"
proof (intro conjI impI)
  assume h: "ev_type d = ''content_block_delta'' \<and> partialJson d = Some f
      \<and> toolCallsTracker st (indexOf d) = Some tc"
  let ?e = "if tc_arguments tc \<noteq> [] \<and> prefix (tc_arguments tc) f
       then drop (length (tc_arguments tc)) f else f"
  let ?b = "if tc_arguments tc \<noteq> [] \<and> prefix (tc_arguments tc) f then f else tc_arguments tc @ f"
  have all: "emittedArgs (indexOf d) (snd (processData now st d)) = ?e
    \<and> toolCallsTracker (fst (processData now st d)) (indexOf d) = Some (tc\<lparr> tc_arguments := ?b \<rparr>)
    \<and> (f \<noteq> [] \<longrightarrow> map (resultArgs (indexOf d)) (snd (processData now st d)) = [?e])"
  proof (cases "f = []")
    case True
    from h have ns: "\<not> isToolStart d" by (auto simp: isToolStart_def)
    from h True have np: "\<not> (ev_type d = ''content_block_delta'' \<and> truthy (partialJson d))"
      by (simp add: truthy_def)
    have t: "toolCallsTracker (fst (processData now st d)) = toolCallsTracker st"
      by (rule processData_no_tool [OF ns np])
    have e: "emittedArgs (indexOf d) (snd (processData now st d)) = []"
      by (rule processData_no_tool [OF ns np])
    from True t e h show ?thesis by simp
  next
    case False
    let ?st1 = "st\<lparr> metricsData := updateMetrics (metricsData st) d \<rparr>"
    from h False have k: "ev_type d = ''content_block_delta''" and p: "truthy (partialJson d)"
      and tr: "toolCallsTracker ?st1 (indexOf d) = Some tc" and pj: "the (partialJson d) = f"
      by (simp_all add: truthy_def)
    obtain newPart tc' where r: "resolveDelta tc f = (newPart, tc')" by (cases "resolveDelta tc f")
    let ?st2 = "?st1\<lparr> toolCallsTracker := (toolCallsTracker ?st1)(indexOf d \<mapsto> tc') \<rparr>"
    let ?c = "mkChunk now ?st2
                  \<lparr> delta_role = None, delta_content = None,
                    delta_tool_calls = Some
                      [\<lparr> tcd_index = indexOf d, tcd_id = None, tcd_type = None,
                         tcd_function = Some \<lparr> fn_name = None, fn_arguments = Some newPart \<rparr> \<rparr>] \<rparr>
                  None"
    have t: "transformToOpenAI now ?st1 d = Inr (?st2, Some ?c)"
      using tr r pj by (simp add: transformToOpenAI_tool_delta [OF k p] Let_def)
    from k have pd: "processData now st d = (?st2, [Chunk ?c])"
      by (simp add: processData_step [OF delta_not_ignored [OF k]] t Let_def)
    from r have np: "newPart = ?e" and tc': "tc' = tc\<lparr> tc_arguments := ?b \<rparr>"
      by (auto simp: resolveDelta_def split: if_splits)
    have ra: "resultArgs (indexOf d) (Chunk ?c) = newPart"
      by (simp add: mkChunk_def choiceArgs_def callArgs_def)
    from False show ?thesis
      unfolding pd np [symmetric] tc' [symmetric] using ra by simp
  qed
  from all show "emittedArgs (indexOf d) (snd (processData now st d)) = ?e" by blast
  from all show "toolCallsTracker (fst (processData now st d)) (indexOf d) =
      Some (tc\<lparr> tc_arguments := ?b \<rparr>)" by blast
  assume "f \<noteq> []"
  with all show "map (resultArgs (indexOf d)) (snd (processData now st d)) = [?e]" by blast
next
  show "map (resultArgs 0)
        (snd (processChunk now (fst (processData now createConverterState (toolStartFrame 0 ''t1'' ''lookup'')))
           [Some (argsFrame 0 ''ab''), Some (argsFrame 0 ''cd''), Some (argsFrame 0 ''ef'')]))
      = [''ab'', ''cd'', ''ef'']"
    by code_simp
next
  show "trackedArgs
        (fst (processChunk now (fst (processData now createConverterState (toolStartFrame 0 ''t1'' ''lookup'')))
           [Some (argsFrame 0 ''ab''), Some (argsFrame 0 ''cd''), Some (argsFrame 0 ''ef'')])) 0
      = ''abcdef''"
    by code_simp
qed

text \<open>A cumulative snapshot: the buffer holds \<open>{"a":1\<close> and \<open>{"a":1,"b":2\<close> arrives.\<close>

theorem C2_delta_resolution_witness:
  "ev_type (argsFrame 0 ''{\"a\":1,\"b\":2'') = ''content_block_delta''
   \<and> partialJson (argsFrame 0 ''{\"a\":1,\"b\":2'') = Some ''{\"a\":1,\"b\":2''
   \<and> toolCallsTracker snapshotState (indexOf (argsFrame 0 ''{\"a\":1,\"b\":2'')) = Some snapshotTracker
   \<and> map (resultArgs 0) (snd (processData 0 snapshotState (argsFrame 0 ''{\"a\":1,\"b\":2'')))
       = ['',\"b\":2'']
   \<and> trackedArgs (fst (processData 0 snapshotState (argsFrame 0 ''{\"a\":1,\"b\":2''))) 0
       = ''{\"a\":1,\"b\":2''"
proof -
  have a: "ev_type (argsFrame 0 ''{\"a\":1,\"b\":2'') = ''content_block_delta''"
    "partialJson (argsFrame 0 ''{\"a\":1,\"b\":2'') = Some ''{\"a\":1,\"b\":2''"
    "indexOf (argsFrame 0 ''{\"a\":1,\"b\":2'') = 0"
    "toolCallsTracker snapshotState 0 = Some snapshotTracker"
    "tc_arguments snapshotTracker = ''{\"a\":1''"
    by code_simp+
  from C2_delta_resolution [of "argsFrame 0 ''{\"a\":1,\"b\":2''" "''{\"a\":1,\"b\":2''"
      snapshotState snapshotTracker 0] a
  show ?thesis by (simp add: trackedArgs_def)
qed

subsection \<open>C3: usage chunk and terminal signal\<close>

text \<open>
  Against claim C3 as stated: after a frame that reports 7 cache-read tokens and nothing
  else, the cache counter holds 7, and \<open>message_stop\<close> emits the terminal signal alone,
  without usage chunk.
\<close>

theorem C3_cache_only_counterexample:
  "cache_read_input_tokens (metricsData (fst
      (processChunk 0 createConverterState [Some cacheFrame, Some (emptyEvent ''message_stop'')]))) = 7
   \<and> snd (processChunk 0 createConverterState [Some cacheFrame, Some (emptyEvent ''message_stop'')])
       = [Done]"
  by code_simp

text \<open>
  Claim C3, amended. A \<open>message_stop\<close> frame emits a usage chunk exactly when the
  accumulated input or output counter (the frame's own report included) is not zero; the
  cache counters do not count. The chunk has one choice with an empty delta and no finish
  reason, and its usage is \<open>prompt_tokens\<close> = input counter, \<open>completion_tokens\<close> =
  output counter, \<open>total_tokens\<close> = their sum. The terminal signal follows as the last
  result of the frame. Over any sequence of lines there are as many terminal signals as
  \<open>message_stop\<close> frames: one for an exchange that is stopped once.
\<close>

theorem C3_usage_then_terminal:
  "(ev_type d = ''message_stop'' \<longrightarrow>
      (if input_tokens (metricsData st) + frameInputTokens d = 0
          \<and> output_tokens (metricsData st) + frameOutputTokens d = 0
       then snd (processData now st d) = [Done]
       else (\<exists>u. snd (processData now st d) = [Chunk u, Done]
              \<and> chunk_usage u = Some
                  \<lparr> prompt_tokens = input_tokens (metricsData st) + frameInputTokens d,
                    completion_tokens = output_tokens (metricsData st) + frameOutputTokens d,
                    total_tokens = (input_tokens (metricsData st) + frameInputTokens d)
                                 + (output_tokens (metricsData st) + frameOutputTokens d) \<rparr>
              \<and> chunk_choices u =
                  [\<lparr> sc_index = 0, sc_delta = emptyDelta, sc_finish_reason = None \<rparr>])))
   \<and> count_list (snd (processChunk now st lines)) Done = length (filter isStopLine lines)"
proof (intro conjI impI)
  assume stop: "ev_type d = ''message_stop''"
  let ?st1 = "st\<lparr> metricsData := updateMetrics (metricsData st) d \<rparr>"
  have i: "input_tokens (metricsData ?st1) = input_tokens (metricsData st) + frameInputTokens d"
    by (simp add: updateMetrics_input_tokens)
  have out: "output_tokens (metricsData ?st1) = output_tokens (metricsData st) + frameOutputTokens d"
    by (simp add: updateMetrics_output_tokens)
  show "if input_tokens (metricsData st) + frameInputTokens d = 0
          \<and> output_tokens (metricsData st) + frameOutputTokens d = 0
       then snd (processData now st d) = [Done]
       else (\<exists>u. snd (processData now st d) = [Chunk u, Done]
              \<and> chunk_usage u = Some
                  \<lparr> prompt_tokens = input_tokens (metricsData st) + frameInputTokens d,
                    completion_tokens = output_tokens (metricsData st) + frameOutputTokens d,
                    total_tokens = (input_tokens (metricsData st) + frameInputTokens d)
                                 + (output_tokens (metricsData st) + frameOutputTokens d) \<rparr>
              \<and> chunk_choices u =
                  [\<lparr> sc_index = 0, sc_delta = emptyDelta, sc_finish_reason = None \<rparr>])"
    unfolding processData_message_stop [OF stop] createUsageChunk_eq i out
    by simp
next
  show "count_list (snd (processChunk now st lines)) Done = length (filter isStopLine lines)"
    by (rule processChunk_count_done)
qed

theorem C3_usage_then_terminal_witness:
  "ev_type stopFrame = ''message_stop''
   \<and> map usageOf (snd (processData 0 createConverterState stopFrame)) =
       [Some \<lparr> prompt_tokens = 0, completion_tokens = 4, total_tokens = 4 \<rparr>, None]
   \<and> count_list (snd (processChunk 0 createConverterState
        [Some startFrame, None, Some usageFrame, Some stopFrame])) Done = 1"
proof -
  have a: "ev_type stopFrame = ''message_stop''" by code_simp
  have b: "frameInputTokens stopFrame = 0" "frameOutputTokens stopFrame = 4"
    "input_tokens (metricsData createConverterState) = 0"
    "output_tokens (metricsData createConverterState) = 0" by code_simp+
  have c: "length (filter isStopLine [Some startFrame, None, Some usageFrame, Some stopFrame]) = 1"
    by code_simp
  from C3_usage_then_terminal [of stopFrame createConverterState 0
      "[Some startFrame, None, Some usageFrame, Some stopFrame]"] a b c
  show ?thesis by (auto simp: usageOf_def)
qed


subsection \<open>C4: additive counters\<close>

text \<open>
  Against claim C4 as stated: a \<open>ping\<close> frame that reports 5 input tokens is of an ignored
  kind, and after the exchange that consists of it the input counter is 0, not 5; and
  after a frame reporting 3 input tokens the counter is 3, and a further frame reporting
  -5 takes it down to -2.
\<close>

theorem C4_ignored_or_negative_counterexample:
  "ignoredKind pingUsageFrame
   \<and> frameInputTokens pingUsageFrame = 5
   \<and> input_tokens (metricsData (fst (processChunk 0 createConverterState [Some pingUsageFrame]))) = 0
   \<and> input_tokens (metricsData (fst (processChunk 0 createConverterState [Some usageFrame]))) = 3
   \<and> frameInputTokens negativeUsageFrame = - 5
   \<and> input_tokens (metricsData (fst
        (processChunk 0 createConverterState [Some usageFrame, Some negativeUsageFrame]))) = - 2"
  by code_simp

text \<open>
  Claim C4, amended. Over the lines of an exchange, the input and the output counter end
  as what they were plus the sum of the values reported by every frame that is decoded and
  not of an ignored kind (its own usage object and its message's, a repeated frame counted
  each time); the aggregator itself adds what every frame it is given reports, and
  replaces nothing. Where the frames that follow report no negative count, the counters
  after them are at least what they were before them.
\<close>

theorem C4_metrics_additive:
  "input_tokens (metricsData (fst (processChunk now st lines))) =
     input_tokens (metricsData st) + sum_list (map frameInputTokens (absorbedFrames lines))
   \<and> output_tokens (metricsData (fst (processChunk now st lines))) =
     output_tokens (metricsData st) + sum_list (map frameOutputTokens (absorbedFrames lines))
   \<and> input_tokens (foldl updateMetrics md frames) =
     input_tokens md + sum_list (map frameInputTokens frames)
   \<and> output_tokens (foldl updateMetrics md frames) =
     output_tokens md + sum_list (map frameOutputTokens frames)
   \<and> ((\<forall>d \<in> set (absorbedFrames post). 0 \<le> frameInputTokens d \<and> 0 \<le> frameOutputTokens d) \<longrightarrow>
        input_tokens (metricsData (fst (processChunk now st pre)))
          \<le> input_tokens (metricsData (fst (processChunk now st (pre @ post))))
        \<and> output_tokens (metricsData (fst (processChunk now st pre)))
          \<le> output_tokens (metricsData (fst (processChunk now st (pre @ post)))))"
proof (intro conjI impI)
  show "input_tokens (metricsData (fst (processChunk now st lines))) =
     input_tokens (metricsData st) + sum_list (map frameInputTokens (absorbedFrames lines))"
    by (rule processChunk_tokens)
  show "output_tokens (metricsData (fst (processChunk now st lines))) =
     output_tokens (metricsData st) + sum_list (map frameOutputTokens (absorbedFrames lines))"
    by (rule processChunk_tokens)
  show "input_tokens (foldl updateMetrics md frames) =
          input_tokens md + sum_list (map frameInputTokens frames)"
    by (rule foldl_updateMetrics_input)
  show "output_tokens (foldl updateMetrics md frames) =
          output_tokens md + sum_list (map frameOutputTokens frames)"
    by (rule foldl_updateMetrics_output)
next
  assume nn: "\<forall>d \<in> set (absorbedFrames post). 0 \<le> frameInputTokens d \<and> 0 \<le> frameOutputTokens d"
  then have "0 \<le> sum_list (map frameInputTokens (absorbedFrames post))"
    by (intro sum_list_nonneg_int) simp
  then show "input_tokens (metricsData (fst (processChunk now st pre)))
          \<le> input_tokens (metricsData (fst (processChunk now st (pre @ post))))"
    by (simp add: processChunk_tokens absorbedFrames_append)
next
  assume nn: "\<forall>d \<in> set (absorbedFrames post). 0 \<le> frameInputTokens d \<and> 0 \<le> frameOutputTokens d"
  then have "0 \<le> sum_list (map frameOutputTokens (absorbedFrames post))"
    by (intro sum_list_nonneg_int) simp
  then show "output_tokens (metricsData (fst (processChunk now st pre)))
          \<le> output_tokens (metricsData (fst (processChunk now st (pre @ post))))"
    by (simp add: processChunk_tokens absorbedFrames_append)
qed

text \<open>
  A \<open>message_start\<close> whose message reports 10 input tokens, a \<open>ping\<close> reporting 5 that is
  skipped, and the same usage frame twice (3 input and 2 output tokens each time).
\<close>

lemma frame_tokens_examples:
  "frameInputTokens usageFrame = 3" "frameOutputTokens usageFrame = 2"
  "frameInputTokens startFrame = 10" "frameOutputTokens startFrame = 0"
  by (simp_all add: usageFrame_def startFrame_def emptyEvent_def emptyUsage_def
      frameInputTokens_def frameOutputTokens_def usageInput_def usageOutput_def
      messageUsage_def or_zero_def)

theorem C4_metrics_additive_witness:
  "0 \<le> frameInputTokens usageFrame \<and> 0 \<le> frameOutputTokens usageFrame
   \<and> input_tokens (metricsData (fst (processChunk 0 createConverterState
        [Some startFrame, None, Some pingUsageFrame, Some usageFrame, Some usageFrame]))) = 16
   \<and> output_tokens (metricsData (fst (processChunk 0 createConverterState
        [Some startFrame, None, Some pingUsageFrame, Some usageFrame, Some usageFrame]))) = 4
   \<and> input_tokens (foldl updateMetrics (metricsData createConverterState)
        [startFrame, usageFrame, usageFrame]) = 16
   \<and> input_tokens (metricsData (fst (processChunk 0 createConverterState [Some startFrame])))
        \<le> input_tokens (metricsData (fst (processChunk 0 createConverterState
             ([Some startFrame] @ [Some pingUsageFrame, Some usageFrame, Some usageFrame]))))"
proof -
  have a: "absorbedFrames [Some startFrame, None, Some pingUsageFrame, Some usageFrame, Some usageFrame] =
             [startFrame, usageFrame, usageFrame]"
    "absorbedFrames [Some pingUsageFrame, Some usageFrame, Some usageFrame] = [usageFrame, usageFrame]"
    by code_simp+
  from C4_metrics_additive [of 0 createConverterState
      "[Some startFrame, None, Some pingUsageFrame, Some usageFrame, Some usageFrame]"
      "metricsData createConverterState" "[startFrame, usageFrame, usageFrame]"
      "[Some pingUsageFrame, Some usageFrame, Some usageFrame]" "[Some startFrame]"] a
  show ?thesis by (simp add: frame_tokens_examples createConverterState_def)
qed

subsection \<open>C5: the stop-reason table of both translators\<close>

text \<open>
  Against claim C5 as stated: for the stop reason given as the empty string the table
  passes it through, and the snapshot translator yields null.
\<close>

theorem C5_empty_stop_reason_counterexample:
  "responseFinishReason (convertNonStreamingResponse JSON_stringify 0 emptyStopResponse) = [None]
   \<and> specStopReasonMap (ar_stop_reason emptyStopResponse) = Some []"
  by code_simp

text \<open>
  Claim C5, amended. For a non-empty stop reason the snapshot translator's finish reason
  is the table's: \<open>end_turn\<close> gives \<open>stop\<close>, \<open>tool_use\<close> gives \<open>tool_calls\<close>, any
  other value is passed through; for an absent, null or empty one it is null. A
  \<open>message_delta\<close> frame whose delta carries a non-empty stop reason emits one chunk whose
  finish reason is the table's, the same the snapshot translator computes for that stop
  reason; with an absent, null or empty one it emits no chunk.
\<close>

theorem C5_stop_reason_mapping:
  "(truthy (ar_stop_reason resp) \<longrightarrow>
      responseFinishReason (convertNonStreamingResponse stringify now resp) =
        [specStopReasonMap (ar_stop_reason resp)])
   \<and> (\<not> truthy (ar_stop_reason resp) \<longrightarrow>
      responseFinishReason (convertNonStreamingResponse stringify now resp) = [None])
   \<and> (ev_type d = ''message_delta'' \<and> truthy (deltaStopReason d) \<longrightarrow>
      map finishReasonsOf (snd (processData now st d)) = [[specStopReasonMap (deltaStopReason d)]]
      \<and> (ar_stop_reason resp = deltaStopReason d \<longrightarrow>
           map finishReasonsOf (snd (processData now st d)) =
             [responseFinishReason (convertNonStreamingResponse stringify now resp)]))
   \<and> (ev_type d = ''message_delta'' \<and> \<not> truthy (deltaStopReason d) \<longrightarrow>
      snd (processData now st d) = [])"
  by (auto simp: convert_finish_reason stopReasonSnapshot_truthy stopReasonSnapshot_falsy
      processData_message_delta finishReasonsOf_def mkChunk_def stopReasonStream_spec)

theorem C5_stop_reason_mapping_witness:
  "truthy (ar_stop_reason lookupResponse)
   \<and> responseFinishReason (convertNonStreamingResponse JSON_stringify 0 lookupResponse) =
       [Some ''tool_calls'']
   \<and> \<not> truthy (ar_stop_reason emptyStopResponse)
   \<and> responseFinishReason (convertNonStreamingResponse JSON_stringify 0 emptyStopResponse) = [None]
   \<and> ev_type (stopDeltaFrame ''tool_use'') = ''message_delta''
   \<and> truthy (deltaStopReason (stopDeltaFrame ''tool_use''))
   \<and> ar_stop_reason lookupResponse = deltaStopReason (stopDeltaFrame ''tool_use'')
   \<and> map finishReasonsOf (snd (processData 0 createConverterState (stopDeltaFrame ''tool_use''))) =
       [[Some ''tool_calls'']]
   \<and> ev_type (stopDeltaFrame []) = ''message_delta''
   \<and> \<not> truthy (deltaStopReason (stopDeltaFrame []))
   \<and> snd (processData 0 createConverterState (stopDeltaFrame [])) = []"
proof -
  have a: "truthy (ar_stop_reason lookupResponse)"
    "\<not> truthy (ar_stop_reason emptyStopResponse)"
    "ev_type (stopDeltaFrame ''tool_use'') = ''message_delta''"
    "truthy (deltaStopReason (stopDeltaFrame ''tool_use''))"
    "ar_stop_reason lookupResponse = deltaStopReason (stopDeltaFrame ''tool_use'')"
    "ev_type (stopDeltaFrame []) = ''message_delta''"
    "\<not> truthy (deltaStopReason (stopDeltaFrame []))"
    "specStopReasonMap (ar_stop_reason lookupResponse) = Some ''tool_calls''"
    "specStopReasonMap (deltaStopReason (stopDeltaFrame ''tool_use'')) = Some ''tool_calls''"
    by code_simp+
  from C5_stop_reason_mapping [of lookupResponse JSON_stringify 0 "stopDeltaFrame ''tool_use''"
      createConverterState] a
  have 1: "responseFinishReason (convertNonStreamingResponse JSON_stringify 0 lookupResponse) =
       [Some ''tool_calls'']"
    and 2: "map finishReasonsOf (snd (processData 0 createConverterState (stopDeltaFrame ''tool_use''))) =
       [[Some ''tool_calls'']]" by simp_all
  from C5_stop_reason_mapping [of emptyStopResponse JSON_stringify 0 "stopDeltaFrame []"
      createConverterState] a
  have 3: "responseFinishReason (convertNonStreamingResponse JSON_stringify 0 emptyStopResponse) = [None]"
    and 4: "snd (processData 0 createConverterState (stopDeltaFrame [])) = []" by simp_all
  from a 1 2 3 4 show ?thesis by simp
qed

subsection \<open>C6: content of the snapshot translation\<close>

text \<open>
  Against claim C6 as stated: a response whose only block is a text block holding the
  empty string has a text-kind block, and its content is null.
\<close>

theorem C6_empty_text_counterexample:
  "length (filter isTextBlock (responseBlocks emptyTextResponse)) = 1
   \<and> responseContent (convertNonStreamingResponse JSON_stringify 0 emptyTextResponse) = [None]"
  by code_simp

text \<open>
  Claim C6, amended. Where every text-kind block has its text, the content is the
  concatenation, in array order, of the text of the text-kind blocks when that
  concatenation is not empty, and null when it is empty: no text-kind block, or only empty
  ones. No text and empty text both give null.
\<close>

theorem C6_content_concatenation:
  "(\<forall>b \<in> set (responseBlocks resp). isTextBlock b \<longrightarrow> cb_text b \<noteq> None) \<longrightarrow>
   responseContent (convertNonStreamingResponse stringify now resp) =
     [if concat (map (\<lambda>b. the (cb_text b)) (filter isTextBlock (responseBlocks resp))) = []
      then None
      else Some (concat (map (\<lambda>b. the (cb_text b)) (filter isTextBlock (responseBlocks resp))))]"
proof
  assume h: "\<forall>b \<in> set (responseBlocks resp). isTextBlock b \<longrightarrow> cb_text b \<noteq> None"
  have m: "map appendedText (filter isTextBlock (responseBlocks resp)) =
          map (\<lambda>b. the (cb_text b)) (filter isTextBlock (responseBlocks resp))"
    using h by (auto simp: appendedText_def)
  show "responseContent (convertNonStreamingResponse stringify now resp) =
     [if concat (map (\<lambda>b. the (cb_text b)) (filter isTextBlock (responseBlocks resp))) = []
      then None
      else Some (concat (map (\<lambda>b. the (cb_text b)) (filter isTextBlock (responseBlocks resp))))]"
    unfolding convert_content m by (simp del: concat_eq_Nil_conv)
qed

theorem C6_content_concatenation_witness:
  "cb_text (textBlock ''Hello, '') \<noteq> None \<and> cb_text (textBlock ''world'') \<noteq> None
   \<and> \<not> isTextBlock (toolBlock (Some ''t1'') (Some ''lookup'') (Some (JObj [(''q'', JStr ''x'')])))
   \<and> responseContent (convertNonStreamingResponse JSON_stringify 0 helloResponse) =
       [Some ''Hello, world'']"
proof -
  have a: "responseBlocks helloResponse =
       [textBlock ''Hello, '',
        toolBlock (Some ''t1'') (Some ''lookup'') (Some (JObj [(''q'', JStr ''x'')])),
        textBlock ''world'']" by (simp add: helloResponse_def responseBlocks_def)
  have b: "cb_text (textBlock ''Hello, '') = Some ''Hello, ''" "cb_text (textBlock ''world'') = Some ''world''"
    "isTextBlock (textBlock ''Hello, '')" "isTextBlock (textBlock ''world'')"
    "\<not> isTextBlock (toolBlock (Some ''t1'') (Some ''lookup'') (Some (JObj [(''q'', JStr ''x'')])))"
    by (simp_all add: textBlock_def toolBlock_def isTextBlock_def)
  from C6_content_concatenation [of helloResponse JSON_stringify 0] a b
  show ?thesis by simp
qed

subsection \<open>C7: tool calls of the snapshot translation\<close>

text \<open>
  Against claim C7 as stated: for a tool block whose input is the number 0 the arguments
  are \<open>{}\<close>, and the serialization of the input is \<open>0\<close>.
\<close>

theorem C7_falsy_input_counterexample:
  "responseToolCalls (convertNonStreamingResponse JSON_stringify 0 zeroInputResponse) =
     [[\<lparr> call_id = ''t1'', call_type = ''function'',
         call_function = \<lparr> f_name = ''lookup'', f_arguments = ''{}'' \<rparr> \<rparr>]]
   \<and> JSON_stringify (JNum 0) = ''0''"
  by code_simp

text \<open>
  Claim C7, amended. The tool-call list holds, in array order, one call for each
  \<open>tool_use\<close> block whose id and name are both present and non-empty, with that id, that
  name and type \<open>function\<close>; every other block contributes none. The arguments are the
  serialization of the block's input when the input is present and truthy, and of the
  empty object when it is absent or falsy (null, false, 0, the empty string). The response
  with the one tool block \<open>t1\<close>, \<open>lookup\<close>, \<open>{"q":"x"}\<close> yields exactly one call, with
  arguments \<open>{"q":"x"}\<close>.
\<close>

theorem C7_tool_calls_collected:
  "responseToolCalls (convertNonStreamingResponse stringify now resp) =
     [map (\<lambda>b. \<lparr> call_id = the (cb_id b), call_type = ''function'',
                  call_function = \<lparr> f_name = the (cb_name b),
                    f_arguments = stringify (input_or_empty (cb_input b)) \<rparr> \<rparr>)
        (filter (\<lambda>b. cb_type b = ''tool_use'' \<and> truthy (cb_id b) \<and> truthy (cb_name b))
           (responseBlocks resp))]
   \<and> (js_truthy j \<longrightarrow> input_or_empty (Some j) = j)
   \<and> (\<not> js_truthy j \<longrightarrow> input_or_empty (Some j) = JObj [])
   \<and> input_or_empty None = JObj []
   \<and> responseToolCalls (convertNonStreamingResponse JSON_stringify now lookupResponse) =
       [[\<lparr> call_id = ''t1'', call_type = ''function'',
           call_function = \<lparr> f_name = ''lookup'', f_arguments = ''{\"q\":\"x\"}'' \<rparr> \<rparr>]]"
proof (intro conjI)
  have "toolCallOf stringify = (\<lambda>b. \<lparr> call_id = the (cb_id b), call_type = ''function'',
                  call_function = \<lparr> f_name = the (cb_name b),
                    f_arguments = stringify (input_or_empty (cb_input b)) \<rparr> \<rparr>)"
    by (rule ext) (simp add: toolCallOf_def)
  moreover have "isToolBlock = (\<lambda>b. cb_type b = ''tool_use'' \<and> truthy (cb_id b) \<and> truthy (cb_name b))"
    by (rule ext) (simp add: isToolBlock_def)
  ultimately show "responseToolCalls (convertNonStreamingResponse stringify now resp) =
     [map (\<lambda>b. \<lparr> call_id = the (cb_id b), call_type = ''function'',
                  call_function = \<lparr> f_name = the (cb_name b),
                    f_arguments = stringify (input_or_empty (cb_input b)) \<rparr> \<rparr>)
        (filter (\<lambda>b. cb_type b = ''tool_use'' \<and> truthy (cb_id b) \<and> truthy (cb_name b))
           (responseBlocks resp))]"
    by (simp add: convert_tool_calls)
next
  show "js_truthy j \<longrightarrow> input_or_empty (Some j) = j" by (simp add: input_or_empty_def)
  show "\<not> js_truthy j \<longrightarrow> input_or_empty (Some j) = JObj []" by (simp add: input_or_empty_def)
  show "input_or_empty None = JObj []" by (simp add: input_or_empty_def)
  show "responseToolCalls (convertNonStreamingResponse JSON_stringify now lookupResponse) =
       [[\<lparr> call_id = ''t1'', call_type = ''function'',
           call_function = \<lparr> f_name = ''lookup'', f_arguments = ''{\"q\":\"x\"}'' \<rparr> \<rparr>]]"
    by code_simp
qed

theorem C7_tool_calls_collected_witness:
  "js_truthy (JObj [(''q'', JStr ''x'')])
   \<and> input_or_empty (Some (JObj [(''q'', JStr ''x'')])) = JObj [(''q'', JStr ''x'')]
   \<and> responseToolCalls (convertNonStreamingResponse JSON_stringify 0 helloResponse) =
       [[\<lparr> call_id = ''t1'', call_type = ''function'',
           call_function = \<lparr> f_name = ''lookup'', f_arguments = ''{\"q\":\"x\"}'' \<rparr> \<rparr>]]"
proof -
  have a: "js_truthy (JObj [(''q'', JStr ''x'')])" by simp
  have b: "responseBlocks helloResponse =
       [textBlock ''Hello, '',
        toolBlock (Some ''t1'') (Some ''lookup'') (Some (JObj [(''q'', JStr ''x'')])),
        textBlock ''world'']" by (simp add: helloResponse_def responseBlocks_def)
  have c: "JSON_stringify (JObj [(''q'', JStr ''x'')]) = ''{\"q\":\"x\"}''" by code_simp
  from C7_tool_calls_collected [of JSON_stringify 0 helloResponse "JObj [(''q'', JStr ''x'')]"] a b c
  show ?thesis by (simp add: textBlock_def toolBlock_def truthy_def)
qed

subsection \<open>C8: a delta for an index without accumulator\<close>

text \<open>
  Claim C8. A \<open>content_block_delta\<close> frame that carries a partial-argument fragment (and,
  where the fragment is empty, no text) for an index without accumulator is skipped: the
  transformation returns without error and without chunk, the frame emits nothing, and
  the accumulator table is as it was.
\<close>

theorem C8_unknown_index_skipped:
  "ev_type d = ''content_block_delta'' \<and> partialJson d = Some f
     \<and> (f = [] \<longrightarrow> \<not> truthy (deltaText d))
     \<and> toolCallsTracker st (indexOf d) = None \<longrightarrow>
   transformToOpenAI now st d = Inr (st, None)
   \<and> snd (processData now st d) = []
   \<and> toolCallsTracker (fst (processData now st d)) = toolCallsTracker st"
proof (intro impI, elim conjE)
  assume k: "ev_type d = ''content_block_delta''" and p: "partialJson d = Some f"
    and x: "f = [] \<longrightarrow> \<not> truthy (deltaText d)"
    and n: "toolCallsTracker st (indexOf d) = None"
  let ?st1 = "st\<lparr> metricsData := updateMetrics (metricsData st) d \<rparr>"
  have t: "toolCallsTracker st' (indexOf d) = None \<Longrightarrow> transformToOpenAI now st' d = Inr (st', None)"
    for st'
  proof (cases "f = []")
    case True
    with p x have "\<not> truthy (partialJson d)" "\<not> truthy (deltaText d)" by (simp_all add: truthy_def)
    then show ?thesis by (rule transformToOpenAI_plain_delta [OF k])
  next
    case False
    assume "toolCallsTracker st' (indexOf d) = None"
    moreover from False p have "truthy (partialJson d)" by (simp add: truthy_def)
    ultimately show ?thesis by (simp add: transformToOpenAI_tool_delta [OF k])
  qed
  from n have "toolCallsTracker ?st1 (indexOf d) = None" by simp
  then have "transformToOpenAI now ?st1 d = Inr (?st1, None)" by (rule t)
  with k have "processData now st d = (?st1, [])"
    by (simp add: processData_step [OF delta_not_ignored [OF k]] Let_def)
  with t [OF n] show "transformToOpenAI now st d = Inr (st, None)
   \<and> snd (processData now st d) = []
   \<and> toolCallsTracker (fst (processData now st d)) = toolCallsTracker st" by simp
qed

text \<open>After \<open>exampleLines\<close> only index 0 has an accumulator; a fragment and an empty fragment for index 3.\<close>

theorem C8_unknown_index_skipped_witness:
  "ev_type (argsFrame 3 ''{}'') = ''content_block_delta''
   \<and> partialJson (argsFrame 3 ''{}'') = Some ''{}''
   \<and> toolCallsTracker (fst (processChunk 0 createConverterState exampleLines)) 3 = None
   \<and> snd (processData 0 (fst (processChunk 0 createConverterState exampleLines)) (argsFrame 3 ''{}'')) = []
   \<and> trackedArgs (fst (processData 0 (fst (processChunk 0 createConverterState exampleLines))
        (argsFrame 3 ''{}''))) 0 = ''abcd''
   \<and> partialJson (argsFrame 3 []) = Some []
   \<and> \<not> truthy (deltaText (argsFrame 3 []))
   \<and> snd (processData 0 (fst (processChunk 0 createConverterState exampleLines)) (argsFrame 3 [])) = []"
proof -
  let ?st = "fst (processChunk 0 createConverterState exampleLines)"
  have a: "ev_type (argsFrame 3 ''{}'') = ''content_block_delta''"
    "partialJson (argsFrame 3 ''{}'') = Some ''{}''" "indexOf (argsFrame 3 ''{}'') = 3"
    "toolCallsTracker ?st 3 = None" "trackedArgs ?st 0 = ''abcd''"
    "ev_type (argsFrame 3 []) = ''content_block_delta''"
    "partialJson (argsFrame 3 []) = Some []" "indexOf (argsFrame 3 []) = 3"
    "\<not> truthy (deltaText (argsFrame 3 []))"
    by code_simp+
  from C8_unknown_index_skipped [of "argsFrame 3 ''{}''" "''{}''" ?st 0] a
  have 1: "snd (processData 0 ?st (argsFrame 3 ''{}'')) = []"
    and 2: "trackedArgs (fst (processData 0 ?st (argsFrame 3 ''{}''))) 0 = ''abcd''"
    by (simp_all add: trackedArgs_def)
  from C8_unknown_index_skipped [of "argsFrame 3 []" "[]" ?st 0] a
  have 3: "snd (processData 0 ?st (argsFrame 3 [])) = []" by simp
  from a 1 2 3 show ?thesis by simp
qed

subsection \<open>C9: the accumulator mirrors what was emitted\<close>






subsection \<open>C10: one choice, index 0\<close>

text \<open>
  Claim C10. Every chunk emitted while streaming, the usage chunk included, and every
  non-streaming response has exactly one choice, and its index is 0.
\<close>

theorem C10_single_choice:
  "(\<forall>c. Chunk c \<in> set (snd (processChunk now st lines)) \<longrightarrow> map sc_index (chunk_choices c) = [0])
   \<and> map ch_index (resp_choices (convertNonStreamingResponse stringify now resp)) = [0]"
  by (simp add: processChunk_choices convert_choices)

lemma roleChunk_emitted:
  "snd (processChunk 1000 createConverterState [Some startFrame]) = [Chunk roleChunk]"
  by code_simp

theorem C10_single_choice_witness:
  "Chunk roleChunk \<in> set (snd (processChunk 1000 createConverterState [Some startFrame]))
   \<and> map sc_index (chunk_choices roleChunk) = [0]
   \<and> map ch_index (resp_choices (convertNonStreamingResponse JSON_stringify 1000 helloResponse)) = [0]"
  using C10_single_choice [of 1000 createConverterState "[Some startFrame]" JSON_stringify helloResponse]
    roleChunk_emitted
  by simp

end
